theory Spec2Isabelle
  imports Main "HOL-Library.Multiset"
begin

section \<open>JavaScript values used by the repository and the controller\<close>

text \<open>
  Errors are values. \<open>Error m\<close> is \<open>new Error(m)\<close>; \<open>TypeError m\<close> is what the engine
  raises when a property of \<open>null\<close> is read. \<open>message_of\<close> is \<open>error.message\<close>.
\<close>

datatype exn = Error string | TypeError string

fun message_of :: "exn \<Rightarrow> string" where
  "message_of (Error m) = m"
| "message_of (TypeError m) = m"

text \<open>
  Reading \<open>null.id\<close> raises a TypeError. Its text is the engine's and differs between
  engines, so it is an argument (\<open>tmsg\<close>) of the one operation that can make that read;
  the code only forwards it. The errors of the entity layer are \<open>Error\<close> objects, which
  have a message.
\<close>

definition null_deref :: "string \<Rightarrow> exn" where
  "null_deref tmsg = TypeError tmsg"

text \<open>
  An object key holding a string is either absent (\<open>undefined\<close>, here \<open>None\<close>) or a
  string. A string is truthy when it is not empty.
\<close>

definition truthy :: "string option \<Rightarrow> bool" where
  "truthy v = (case v of None \<Rightarrow> False | Some s \<Rightarrow> s \<noteq> [])"

text \<open>\<open>a || b\<close> on such a key.\<close>

definition or_else :: "string option \<Rightarrow> string \<Rightarrow> string" where
  "or_else v d = (case v of None \<Rightarrow> d | Some s \<Rightarrow> if s = [] then d else s)"

text \<open>
  A string is the list of the bytes of its UTF-8 form, so a character outside ASCII takes
  two to four bytes. \<open>startsWith\<close> and \<open>includes\<close> compare bytes, which on UTF-8 is the
  comparison of the characters.
\<close>

fun startsWith :: "string \<Rightarrow> string \<Rightarrow> bool" where
  "startsWith s [] = True"
| "startsWith [] (n # ns) = False"
| "startsWith (c # cs) (n # ns) = (c = n \<and> startsWith cs ns)"

fun includes_str :: "string \<Rightarrow> string \<Rightarrow> bool" where
  "includes_str [] n = (n = [])"
| "includes_str (c # cs) n = (startsWith (c # cs) n \<or> includes_str cs n)"

text \<open>
  The characters that \<open>String.prototype.trim\<close> removes, the white space and the line
  terminators of ECMAScript, each as its UTF-8 bytes: U+0009 to U+000D, U+0020, U+00A0,
  U+1680, U+2000 to U+200A, U+2028, U+2029, U+202F, U+205F, U+3000 and U+FEFF.
\<close>

definition whitespace :: "string list" where
  "whitespace =
     [[CHR 0x09], [CHR 0x0A], [CHR 0x0B], [CHR 0x0C], [CHR 0x0D], [CHR 0x20],
      [CHR 0xC2, CHR 0xA0], [CHR 0xE1, CHR 0x9A, CHR 0x80],
      [CHR 0xE2, CHR 0x80, CHR 0x80], [CHR 0xE2, CHR 0x80, CHR 0x81],
      [CHR 0xE2, CHR 0x80, CHR 0x82], [CHR 0xE2, CHR 0x80, CHR 0x83],
      [CHR 0xE2, CHR 0x80, CHR 0x84], [CHR 0xE2, CHR 0x80, CHR 0x85],
      [CHR 0xE2, CHR 0x80, CHR 0x86], [CHR 0xE2, CHR 0x80, CHR 0x87],
      [CHR 0xE2, CHR 0x80, CHR 0x88], [CHR 0xE2, CHR 0x80, CHR 0x89],
      [CHR 0xE2, CHR 0x80, CHR 0x8A], [CHR 0xE2, CHR 0x80, CHR 0xA8],
      [CHR 0xE2, CHR 0x80, CHR 0xA9], [CHR 0xE2, CHR 0x80, CHR 0xAF],
      [CHR 0xE2, CHR 0x81, CHR 0x9F], [CHR 0xE3, CHR 0x80, CHR 0x80],
      [CHR 0xEF, CHR 0xBB, CHR 0xBF]]"

text \<open>
  \<open>strip1 ws s\<close> takes one character of \<open>ws\<close> from the front of \<open>s\<close>, if \<open>s\<close> starts with
  one; \<open>stripAll\<close> does so until none is left. \<open>trim\<close> strips the white space from the
  front, and from the back on the reversed bytes.
\<close>

fun strip1 :: "string list \<Rightarrow> string \<Rightarrow> string option" where
  "strip1 [] s = None"
| "strip1 (w # ws) s =
     (if w \<noteq> [] \<and> startsWith s w then Some (drop (length w) s) else strip1 ws s)"

function stripAll :: "string list \<Rightarrow> string \<Rightarrow> string" where
  "stripAll ws s = (case strip1 ws s of None \<Rightarrow> s | Some r \<Rightarrow> stripAll ws r)"
  by pat_completeness auto
termination
proof (relation "measure (\<lambda>(ws, s). length s)")
  show "wf (measure (\<lambda>(ws, s). length s))" by simp
next
  fix ws :: "string list" and s r :: string
  assume a: "strip1 ws s = Some r"
  have sw: "\<And>(s :: string) w. w \<noteq> [] \<Longrightarrow> startsWith s w \<Longrightarrow> s \<noteq> []"
    by (case_tac s; case_tac w) simp_all
  have "\<And>us. strip1 us s = Some r \<Longrightarrow> length r < length s"
  proof -
    fix us show "strip1 us s = Some r \<Longrightarrow> length r < length s"
    proof (induction us)
      case Nil
      then show ?case by simp
    next
      case (Cons w us)
      show ?case
      proof (cases "w \<noteq> [] \<and> startsWith s w")
        case True
        then have "s \<noteq> []" using sw by blast
        moreover have "r = drop (length w) s" using Cons.prems True by simp
        ultimately show ?thesis using True by (cases w) simp_all
      next
        case False
        then have "strip1 us s = Some r" using Cons.prems by (simp split: if_splits)
        then show ?thesis by (rule Cons.IH)
      qed
    qed
  qed
  then show "((ws, r), (ws, s)) \<in> measure (\<lambda>(ws, s). length s)" using a by simp
qed

declare stripAll.simps [simp del]

definition trim :: "string \<Rightarrow> string" where
  "trim s = rev (stripAll (map rev whitespace) (rev (stripAll whitespace s)))"

text \<open>
  \<open>toLowerCase\<close> on the ASCII letters; the bytes of other characters stay as they are.
\<close>

definition lowerChar :: "char \<Rightarrow> char" where
  "lowerChar c =
     (let n = (of_char c :: nat) in if 65 \<le> n \<and> n \<le> 90 then char_of (n + 32) else c)"

definition toLowerCase :: "string \<Rightarrow> string" where
  "toLowerCase s = map lowerChar s"

text \<open>\<open>a < b\<close> on strings: lexicographic on the bytes.\<close>

fun str_lt :: "string \<Rightarrow> string \<Rightarrow> bool" where
  "str_lt [] [] = False"
| "str_lt [] (b # bs) = True"
| "str_lt (a # as) [] = False"
| "str_lt (a # as) (b # bs) =
     ((of_char a :: nat) < of_char b \<or> (a = b \<and> str_lt as bs))"

section \<open>The entity layer\<close>

text \<open>
  A task as the repository and the controller read it. \<open>isOverdue\<close> and \<open>daysUntilDue\<close>
  are the derived properties of \<open>EnhancedTask\<close>, read here as the values they have when
  the repository looks at the task. Dates are millisecond time stamps.
\<close>

record task =
  id_task :: string
  title :: string
  description :: string
  ownerId :: string
  assigneeId :: string
  category :: string
  priority :: string
  status :: string
  dueDate :: "int option"
  createdAt :: int
  estimatedHours :: int
  timeSpent :: int
  tags :: "string list"
  notes_task :: "string list"
  isOverdue :: bool
  daysUntilDue :: "int option"

record user =
  id_user :: string
  username :: string
  email :: string
  fullName :: string
  isActive :: bool

text \<open>The object handed to \<open>createTask\<close> and on to the constructor of \<open>EnhancedTask\<close>.\<close>

record taskData =
  d_title :: "string option"
  d_description :: "string option"
  d_ownerId :: "string option"
  d_assigneeId :: "string option"
  d_category :: "string option"
  d_priority :: "string option"
  d_dueDate :: "int option"
  d_estimatedHours :: "int option"
  d_tags :: "string list option"

text \<open>
  The \<open>updates\<close> object of \<open>update\<close>: each recognised key is absent (\<open>undefined\<close>) or
  holds a value of the field's type. Keys that \<open>update\<close> does not read are not modelled.
\<close>

record updates =
  u_title :: "string option"
  u_description :: "string option"
  u_category :: "string option"
  u_priority :: "string option"
  u_status :: "string option"
  u_dueDate :: "int option"
  u_assigneeId :: "string option"
  u_estimatedHours :: "int option"
  u_addTimeSpent :: "int option"
  u_addTag :: "string option"
  u_removeTag :: "string option"
  u_addNote :: "string option"

definition no_updates :: updates where
  "no_updates = \<lparr>u_title = None, u_description = None, u_category = None,
     u_priority = None, u_status = None, u_dueDate = None, u_assigneeId = None,
     u_estimatedHours = None, u_addTimeSpent = None, u_addTag = None,
     u_removeTag = None, u_addNote = None\<rparr>"

text \<open>
  The class \<open>EnhancedTask\<close> is not part of the sources at hand, so its constructor and
  its mutation methods are parameters of everything below. A method either returns the
  changed task or raises, and a method that raises has validated its argument before
  assigning, so the task is as the method found it. The constructor takes the number of
  tasks constructed so far (the source of fresh identifiers and time stamps) and the four
  arguments the repository passes.
\<close>

record entity =
  construct :: "nat \<Rightarrow> string option \<Rightarrow> string \<Rightarrow> string option \<Rightarrow> taskData \<Rightarrow> exn + task"
  updateTitle :: "string \<Rightarrow> task \<Rightarrow> exn + task"
  updateDescription :: "string \<Rightarrow> task \<Rightarrow> exn + task"
  updateCategory :: "string \<Rightarrow> task \<Rightarrow> exn + task"
  updatePriority :: "string \<Rightarrow> task \<Rightarrow> exn + task"
  updateStatus :: "string \<Rightarrow> task \<Rightarrow> exn + task"
  setDueDate :: "int \<Rightarrow> task \<Rightarrow> exn + task"
  assignTo :: "string \<Rightarrow> task \<Rightarrow> exn + task"
  setEstimatedHours :: "int \<Rightarrow> task \<Rightarrow> exn + task"
  addTimeSpent :: "int \<Rightarrow> task \<Rightarrow> exn + task"
  addTag :: "string \<Rightarrow> task \<Rightarrow> exn + task"
  removeTag :: "string \<Rightarrow> task \<Rightarrow> exn + task"
  addNote :: "string \<Rightarrow> task \<Rightarrow> exn + task"

section \<open>TaskRepository\<close>

text \<open>
  \<open>this.tasks\<close> is a JavaScript \<open>Map\<close>: an association list in insertion order with one
  entry per key. \<open>stored\<close> is what the storage port holds under the key \<open>tasks\<close>,
  \<open>saves\<close> counts the calls of \<open>storage.save\<close>, and \<open>clock\<close> counts the tasks
  constructed.
\<close>

record repo =
  tasks :: "(string \<times> task) list"
  stored :: "task list"
  saves :: nat
  clock :: nat

fun map_set :: "string \<Rightarrow> 'v \<Rightarrow> (string \<times> 'v) list \<Rightarrow> (string \<times> 'v) list" where
  "map_set k v [] = [(k, v)]"
| "map_set k v (p # ps) = (if fst p = k then (k, v) # ps else p # map_set k v ps)"

definition map_has :: "(string \<times> 'v) list \<Rightarrow> string \<Rightarrow> bool" where
  "map_has m k = (map_of m k \<noteq> None)"

definition map_delete :: "string \<Rightarrow> (string \<times> 'v) list \<Rightarrow> (string \<times> 'v) list" where
  "map_delete k m = filter (\<lambda>p. fst p \<noteq> k) m"

text \<open>
  \<open>_saveTasksToStorage\<close>: the whole index is serialised and handed to the storage port;
  an error of the port is logged and swallowed there.
\<close>

definition saveTasksToStorage :: "repo \<Rightarrow> repo" where
  "saveTasksToStorage r = r\<lparr>stored := map snd (tasks r), saves := Suc (saves r)\<rparr>"

definition findById :: "repo \<Rightarrow> string \<Rightarrow> task option" where
  "findById r i = map_of (tasks r) i"

definition findAll :: "repo \<Rightarrow> task list" where
  "findAll r = map snd (tasks r)"

definition findByOwner :: "repo \<Rightarrow> string \<Rightarrow> task list" where
  "findByOwner r oid = filter (\<lambda>t. ownerId t = oid) (findAll r)"

definition findByAssignee :: "repo \<Rightarrow> string \<Rightarrow> task list" where
  "findByAssignee r aid = filter (\<lambda>t. assigneeId t = aid) (findAll r)"

definition findOverdue :: "repo \<Rightarrow> task list" where
  "findOverdue r = filter (\<lambda>t. isOverdue t = True) (findAll r)"

text \<open>
  \<open>findDueSoon(days)\<close>: \<open>daysUntilDue !== null && daysUntilDue <= days && daysUntilDue >= 0\<close>.
\<close>

definition findDueSoon :: "repo \<Rightarrow> int \<Rightarrow> task list" where
  "findDueSoon r days =
     filter (\<lambda>t. case daysUntilDue t of None \<Rightarrow> False | Some d \<Rightarrow> d \<le> days \<and> d \<ge> 0)
       (findAll r)"

definition findByTag :: "repo \<Rightarrow> string \<Rightarrow> task list" where
  "findByTag r tag = filter (\<lambda>t. tag \<in> set (tags t)) (findAll r)"

text \<open>
  \<open>create\<close>: the constructor may raise, and the error is thrown on after logging; else
  the task is put into the index under its own id and the index is saved.
\<close>

definition create :: "entity \<Rightarrow> taskData \<Rightarrow> repo \<Rightarrow> (exn + task) \<times> repo" where
  "create E d r =
     (let r1 = r\<lparr>clock := Suc (clock r)\<rparr> in
      case construct E (clock r) (d_title d) (or_else (d_description d) []) (d_ownerId d) d of
        Inl e \<Rightarrow> (Inl e, r1)
      | Inr t \<Rightarrow> (Inr t, saveTasksToStorage (r1\<lparr>tasks := map_set (id_task t) t (tasks r1)\<rparr>)))"

text \<open>
  One line \<open>if (updates.k !== undefined) task.m(updates.k)\<close> of \<open>update\<close>. The state is
  the task object and the error raised so far, if any: once a method has raised, control
  is in the \<open>catch\<close> block and no later line runs.
\<close>

definition mutate ::
  "'v option \<Rightarrow> ('v \<Rightarrow> task \<Rightarrow> exn + task) \<Rightarrow> task \<times> exn option \<Rightarrow> task \<times> exn option" where
  "mutate v m s =
     (case s of
        (t, Some e) \<Rightarrow> (t, Some e)
      | (t, None) \<Rightarrow>
          (case v of
             None \<Rightarrow> (t, None)
           | Some x \<Rightarrow> (case m x t of Inl e \<Rightarrow> (t, Some e) | Inr t' \<Rightarrow> (t', None))))"

definition apply_updates :: "entity \<Rightarrow> updates \<Rightarrow> task \<Rightarrow> task \<times> exn option" where
  "apply_updates E u t =
     (let s = (t, None);
          s = mutate (u_title u) (updateTitle E) s;
          s = mutate (u_description u) (updateDescription E) s;
          s = mutate (u_category u) (updateCategory E) s;
          s = mutate (u_priority u) (updatePriority E) s;
          s = mutate (u_status u) (updateStatus E) s;
          s = mutate (u_dueDate u) (setDueDate E) s;
          s = mutate (u_assigneeId u) (assignTo E) s;
          s = mutate (u_estimatedHours u) (setEstimatedHours E) s;
          s = mutate (u_addTimeSpent u) (addTimeSpent E) s;
          s = mutate (u_addTag u) (addTag E) s;
          s = mutate (u_removeTag u) (removeTag E) s;
          s = mutate (u_addNote u) (addNote E) s
      in s)"

text \<open>
  \<open>update\<close>: the task object in the index is the one the methods change, so what they
  did before an error is in the index when the error is thrown on; the index is saved
  only on the path without error.
\<close>

definition update :: "entity \<Rightarrow> string \<Rightarrow> updates \<Rightarrow> repo \<Rightarrow> (exn + task option) \<times> repo" where
  "update E i u r =
     (case findById r i of
        None \<Rightarrow> (Inr None, r)
      | Some t \<Rightarrow>
          (case apply_updates E u t of
             (t', Some e) \<Rightarrow> (Inl e, r\<lparr>tasks := map_set i t' (tasks r)\<rparr>)
           | (t', None) \<Rightarrow>
               (Inr (Some t'), saveTasksToStorage (r\<lparr>tasks := map_set i t' (tasks r)\<rparr>))))"

definition delete :: "string \<Rightarrow> repo \<Rightarrow> bool \<times> repo" where
  "delete i r =
     (if map_has (tasks r) i
      then (True, saveTasksToStorage (r\<lparr>tasks := map_delete i (tasks r)\<rparr>))
      else (False, r))"

definition search :: "repo \<Rightarrow> string \<Rightarrow> task list" where
  "search r query =
     (let searchTerm = toLowerCase query in
      filter (\<lambda>t. includes_str (toLowerCase (title t)) searchTerm
                 \<or> includes_str (toLowerCase (description t)) searchTerm
                 \<or> list_ex (\<lambda>tag. includes_str (toLowerCase tag) searchTerm) (tags t))
        (findAll r))"

text \<open>
  The \<open>filters\<close> object of \<open>filter\<close> and of \<open>getTasks\<close>. A flag that is absent reads as
  false.
\<close>

record filters =
  f_ownerId :: "string option"
  f_assigneeId :: "string option"
  f_category :: "string option"
  f_status :: "string option"
  f_priority :: "string option"
  f_overdue :: bool
  f_dueSoon :: bool
  f_tags :: "string list option"
  f_sortBy :: "string option"
  f_sortOrder :: "string option"

definition filter_repo :: "repo \<Rightarrow> filters \<Rightarrow> task list" where
  "filter_repo r f =
     (let results = findAll r;
          results = (if truthy (f_ownerId f)
                     then filter (\<lambda>t. Some (ownerId t) = f_ownerId f) results else results);
          results = (if truthy (f_assigneeId f)
                     then filter (\<lambda>t. Some (assigneeId t) = f_assigneeId f) results else results);
          results = (if truthy (f_category f)
                     then filter (\<lambda>t. Some (category t) = f_category f) results else results);
          results = (if truthy (f_status f)
                     then filter (\<lambda>t. Some (status t) = f_status f) results else results);
          results = (if truthy (f_priority f)
                     then filter (\<lambda>t. Some (priority t) = f_priority f) results else results);
          results = (if f_overdue f
                     then filter (\<lambda>t. isOverdue t = True) results else results);
          results = (if f_dueSoon f
                     then filter (\<lambda>t. case daysUntilDue t of
                                          None \<Rightarrow> False | Some d \<Rightarrow> d \<le> 3 \<and> d \<ge> 0) results
                     else results);
          results = (case f_tags f of
                       None \<Rightarrow> results
                     | Some ts \<Rightarrow>
                         if length ts > 0
                         then filter (\<lambda>t. list_ex (\<lambda>tag. tag \<in> set (tags t)) ts) results
                         else results)
      in results)"

text \<open>The object \<open>{}\<close>, the default argument of \<open>getTasks\<close>.\<close>

definition no_filters :: filters where
  "no_filters = \<lparr>f_ownerId = None, f_assigneeId = None, f_category = None, f_status = None,
     f_priority = None, f_overdue = False, f_dueSoon = False, f_tags = None,
     f_sortBy = None, f_sortOrder = None\<rparr>"

text \<open>
  The values the comparator of \<open>sort\<close> compares: lower-cased titles, the numbers of the
  table \<open>p\<close> (\<open>undefined\<close> for a priority outside it), and time stamps. \<open>js_lt a b\<close> is
  \<open>a < b\<close>: false whenever one side is \<open>undefined\<close>.
\<close>

datatype sortval = Str string | Num int | Undefined

fun js_lt :: "sortval \<Rightarrow> sortval \<Rightarrow> bool" where
  "js_lt (Str a) (Str b) = str_lt a b"
| "js_lt (Num a) (Num b) = (a < b)"
| "js_lt _ _ = False"

definition p :: "string \<Rightarrow> sortval" where
  "p k = (if k = ''low'' then Num 1 else if k = ''medium'' then Num 2
          else if k = ''high'' then Num 3 else if k = ''urgent'' then Num 4
          else Undefined)"

text \<open>\<open>new Date('9999-12-31')\<close> as a time stamp.\<close>

definition far_future :: int where
  "far_future = 253402214400000"

definition sort_value :: "string \<Rightarrow> task \<Rightarrow> sortval" where
  "sort_value sortBy a =
     (if sortBy = ''title'' then Str (toLowerCase (title a))
      else if sortBy = ''priority'' then p (priority a)
      else if sortBy = ''dueDate'' then Num (case dueDate a of None \<Rightarrow> far_future | Some d \<Rightarrow> d)
      else Num (createdAt a))"

definition comparator :: "string \<Rightarrow> string \<Rightarrow> task \<Rightarrow> task \<Rightarrow> int" where
  "comparator sortBy order a b =
     (let valueA = sort_value sortBy a; valueB = sort_value sortBy b in
      if order = ''asc''
      then (if js_lt valueB valueA then 1 else - 1)
      else (if js_lt valueA valueB then 1 else - 1))"

text \<open>
  \<open>Array.prototype.sort\<close> is the engine's. It is modelled as the insertion sort that
  takes the elements from left to right and puts each one in front of the first element
  of the sorted part that the comparator orders after it (a negative result of
  \<open>cmp x y\<close> puts \<open>x\<close> first).
\<close>

fun insert_by :: "('a \<Rightarrow> 'a \<Rightarrow> int) \<Rightarrow> 'a \<Rightarrow> 'a list \<Rightarrow> 'a list" where
  "insert_by cmp x [] = [x]"
| "insert_by cmp x (y # ys) = (if cmp x y < 0 then x # y # ys else y # insert_by cmp x ys)"

definition array_sort :: "('a \<Rightarrow> 'a \<Rightarrow> int) \<Rightarrow> 'a list \<Rightarrow> 'a list" where
  "array_sort cmp xs = foldl (\<lambda>acc x. insert_by cmp x acc) [] xs"

definition sort_tasks :: "task list \<Rightarrow> string \<Rightarrow> string \<Rightarrow> task list" where
  "sort_tasks ts sortBy order = array_sort (comparator sortBy order) ts"

record stats =
  total :: nat
  byStatus :: "(string \<times> nat) list"
  byPriority :: "(string \<times> nat) list"
  byCategory :: "(string \<times> nat) list"
  overdue :: nat
  dueSoon :: nat
  completed :: nat

text \<open>\<open>getStats(userId)\<close>; \<open>None\<close> is the default \<open>null\<close>.\<close>

definition getStats :: "repo \<Rightarrow> string option \<Rightarrow> stats" where
  "getStats r userId =
     (let ts = (case userId of
                  None \<Rightarrow> findAll r
                | Some u \<Rightarrow> if u \<noteq> [] then findByOwner r u else findAll r)
      in \<lparr>total = length ts,
          byStatus = map (\<lambda>s. (s, length (filter (\<lambda>t. status t = s) ts)))
                       [''pending'', ''in-progress'', ''blocked'', ''completed'', ''cancelled''],
          byPriority = map (\<lambda>q. (q, length (filter (\<lambda>t. priority t = q) ts)))
                       [''low'', ''medium'', ''high'', ''urgent''],
          byCategory = map (\<lambda>c. (c, length (filter (\<lambda>t. category t = c) ts)))
                       [''work'', ''personal'', ''study'', ''health'', ''finance'', ''other''],
          overdue = length (filter (\<lambda>t. isOverdue t) ts),
          dueSoon = length (filter (\<lambda>t. case daysUntilDue t of
                                           None \<Rightarrow> False | Some d \<Rightarrow> d \<le> 3) ts),
          completed = length (filter (\<lambda>t. status t = ''completed'') ts)\<rparr>)"

section \<open>TaskController\<close>

text \<open>
  Modelled from the spec: \<open>UserRepository\<close> is not part of the sources at hand. Its index
  is a list of users by id, and \<open>findById\<close> is the lookup that gives \<open>null\<close> (here
  \<open>None\<close>) when the id is absent.
\<close>

definition user_findById :: "(string \<times> user) list \<Rightarrow> string \<Rightarrow> user option" where
  "user_findById us i = map_of us i"

record controller =
  taskRepository :: repo
  userRepository :: "(string \<times> user) list"
  currentUser :: "user option"

text \<open>
  The object a controller operation returns. A key that the operation does not set is
  \<open>None\<close>.
\<close>

datatype payload = Task task | Tasks "task list" | Statistics stats | Null

record envelope =
  success :: bool
  data :: "payload option"
  message :: "string option"
  error :: "string option"
  count :: "nat option"
  query :: "string option"

definition failure :: "string \<Rightarrow> envelope" where
  "failure m = \<lparr>success = False, data = None, message = None, error = Some m,
     count = None, query = None\<rparr>"

definition succeed :: "payload option \<Rightarrow> string option \<Rightarrow> nat option \<Rightarrow> envelope" where
  "succeed d m n = \<lparr>success = True, data = d, message = m, error = None,
     count = n, query = None\<rparr>"

definition login_required :: string where
  "login_required = ''User harus login terlebih dahulu''"

text \<open>
  A controller operation runs its body inside \<open>try\<close>; \<open>catch (error)\<close> returns
  \<open>{success: false, error: error.message}\<close>. The controller is as the body left it.
\<close>

definition try_catch :: "(exn + envelope) \<times> controller \<Rightarrow> (exn + envelope) \<times> controller" where
  "try_catch res =
     (case res of
        (Inl e, c) \<Rightarrow> (Inr (failure (message_of e)), c)
      | (Inr v, c) \<Rightarrow> (Inr v, c))"

text \<open>\<open>!s || s.trim() === ''\<close>\<close>

definition blank :: "string option \<Rightarrow> bool" where
  "blank v = (case v of None \<Rightarrow> True | Some s \<Rightarrow> s = [] \<or> trim s = [])"

text \<open>\<open>setCurrentUser\<close> has no \<open>try\<close>: its error goes to the caller.\<close>

definition setCurrentUser :: "string \<Rightarrow> controller \<Rightarrow> (exn + unit) \<times> controller" where
  "setCurrentUser userId c =
     (let c1 = c\<lparr>currentUser := user_findById (userRepository c) userId\<rparr> in
      if currentUser c1 = None then (Inl (Error ''User tidak ditemukan''), c1)
      else (Inr (), c1))"

definition quoted :: "string \<Rightarrow> string" where
  "quoted s = [CHR 0x22] @ s @ [CHR 0x22]"

definition createTask_body ::
  "entity \<Rightarrow> taskData \<Rightarrow> controller \<Rightarrow> (exn + envelope) \<times> controller" where
  "createTask_body E taskData c =
     (case currentUser c of
        None \<Rightarrow> (Inr (failure login_required), c)
      | Some cu \<Rightarrow>
          if blank (d_title taskData) then (Inr (failure ''Judul task wajib diisi''), c)
          else
            let aid = or_else (d_assigneeId taskData) (id_user cu);
                taskToCreate = taskData\<lparr>d_ownerId := Some (id_user cu), d_assigneeId := Some aid\<rparr>
            in if aid \<noteq> id_user cu \<and> user_findById (userRepository c) aid = None
               then (Inr (failure ''User yang di-assign tidak ditemukan''), c)
               else
                 (case create E taskToCreate (taskRepository c) of
                    (Inl e, r') \<Rightarrow> (Inl e, c\<lparr>taskRepository := r'\<rparr>)
                  | (Inr t, r') \<Rightarrow>
                      (Inr (succeed (Some (Task t))
                              (Some (''Task '' @ quoted (title t) @ '' berhasil dibuat'')) None),
                       c\<lparr>taskRepository := r'\<rparr>)))"

definition createTask ::
  "entity \<Rightarrow> taskData \<Rightarrow> controller \<Rightarrow> (exn + envelope) \<times> controller" where
  "createTask E taskData c = try_catch (createTask_body E taskData c)"

definition getTasks_body :: "filters \<Rightarrow> controller \<Rightarrow> (exn + envelope) \<times> controller" where
  "getTasks_body fs c =
     (case currentUser c of
        None \<Rightarrow> (Inr (failure login_required), c)
      | Some cu \<Rightarrow>
          let userFilters = fs\<lparr>f_ownerId := Some (id_user cu)\<rparr>;
              ts = filter_repo (taskRepository c) userFilters;
              sortBy = or_else (f_sortBy fs) ''createdAt'';
              sortOrder = or_else (f_sortOrder fs) ''desc'';
              ts = sort_tasks ts sortBy sortOrder
          in (Inr (succeed (Some (Tasks ts)) None (Some (length ts))), c))"

definition getTasks :: "filters \<Rightarrow> controller \<Rightarrow> (exn + envelope) \<times> controller" where
  "getTasks fs c = try_catch (getTasks_body fs c)"

definition getTask_body :: "string \<Rightarrow> controller \<Rightarrow> (exn + envelope) \<times> controller" where
  "getTask_body taskId c =
     (case currentUser c of
        None \<Rightarrow> (Inr (failure login_required), c)
      | Some cu \<Rightarrow>
          (case findById (taskRepository c) taskId of
             None \<Rightarrow> (Inr (failure ''Task tidak ditemukan''), c)
           | Some t \<Rightarrow>
               if ownerId t \<noteq> id_user cu \<and> assigneeId t \<noteq> id_user cu
               then (Inr (failure ''Anda tidak memiliki akses ke task ini''), c)
               else (Inr (succeed (Some (Task t)) None None), c)))"

definition getTask :: "string \<Rightarrow> controller \<Rightarrow> (exn + envelope) \<times> controller" where
  "getTask taskId c = try_catch (getTask_body taskId c)"

text \<open>\<open>data: updatedTask\<close>, where the repository may have returned \<open>null\<close>.\<close>

definition task_or_null :: "task option \<Rightarrow> payload" where
  "task_or_null v = (case v of None \<Rightarrow> Null | Some t \<Rightarrow> Task t)"

definition updateTask_body ::
  "entity \<Rightarrow> string \<Rightarrow> updates \<Rightarrow> controller \<Rightarrow> (exn + envelope) \<times> controller" where
  "updateTask_body E taskId u c =
     (case currentUser c of
        None \<Rightarrow> (Inr (failure login_required), c)
      | Some cu \<Rightarrow>
          (case findById (taskRepository c) taskId of
             None \<Rightarrow> (Inr (failure ''Task tidak ditemukan''), c)
           | Some t \<Rightarrow>
               if ownerId t \<noteq> id_user cu
               then (Inr (failure ''Hanya owner yang bisa mengubah task''), c)
               else if truthy (u_assigneeId u)
                       \<and> user_findById (userRepository c) (the (u_assigneeId u)) = None
               then (Inr (failure ''User yang di-assign tidak ditemukan''), c)
               else
                 (case update E taskId u (taskRepository c) of
                    (Inl e, r') \<Rightarrow> (Inl e, c\<lparr>taskRepository := r'\<rparr>)
                  | (Inr updatedTask, r') \<Rightarrow>
                      (Inr (succeed (Some (task_or_null updatedTask))
                              (Some ''Task berhasil diupdate'') None),
                       c\<lparr>taskRepository := r'\<rparr>))))"

definition updateTask ::
  "entity \<Rightarrow> string \<Rightarrow> updates \<Rightarrow> controller \<Rightarrow> (exn + envelope) \<times> controller" where
  "updateTask E taskId u c = try_catch (updateTask_body E taskId u c)"

definition deleteTask_body :: "string \<Rightarrow> controller \<Rightarrow> (exn + envelope) \<times> controller" where
  "deleteTask_body taskId c =
     (case currentUser c of
        None \<Rightarrow> (Inr (failure login_required), c)
      | Some cu \<Rightarrow>
          (case findById (taskRepository c) taskId of
             None \<Rightarrow> (Inr (failure ''Task tidak ditemukan''), c)
           | Some t \<Rightarrow>
               if ownerId t \<noteq> id_user cu
               then (Inr (failure ''Hanya owner yang bisa menghapus task''), c)
               else
                 (case delete taskId (taskRepository c) of
                    (deleted, r') \<Rightarrow>
                      if deleted
                      then (Inr (succeed None
                                   (Some (''Task '' @ quoted (title t) @ '' berhasil dihapus''))
                                   None),
                            c\<lparr>taskRepository := r'\<rparr>)
                      else (Inr (failure ''Gagal menghapus task''),
                            c\<lparr>taskRepository := r'\<rparr>))))"

definition deleteTask :: "string \<Rightarrow> controller \<Rightarrow> (exn + envelope) \<times> controller" where
  "deleteTask taskId c = try_catch (deleteTask_body taskId c)"

text \<open>
  \<open>toggleTaskStatus\<close> starts with the lookup of the task; the first read of
  \<open>this.currentUser.id\<close> is in the access check and raises when no user is set, with the
  text \<open>tmsg\<close> of the engine.
\<close>

definition toggleTaskStatus_body ::
  "entity \<Rightarrow> string \<Rightarrow> string \<Rightarrow> controller \<Rightarrow> (exn + envelope) \<times> controller" where
  "toggleTaskStatus_body E tmsg taskId c =
     (case findById (taskRepository c) taskId of
        None \<Rightarrow> (Inr (failure ''Task tidak ditemukan''), c)
      | Some t \<Rightarrow>
          (case currentUser c of
             None \<Rightarrow> (Inl (null_deref tmsg), c)
           | Some cu \<Rightarrow>
               if ownerId t \<noteq> id_user cu \<and> assigneeId t \<noteq> id_user cu
               then (Inr (failure ''Anda tidak memiliki akses ke task ini''), c)
               else
                 let newStatus = (if status t = ''completed'' then ''pending'' else ''completed'')
                 in (case update E taskId (no_updates\<lparr>u_status := Some newStatus\<rparr>)
                            (taskRepository c) of
                       (Inl e, r') \<Rightarrow> (Inl e, c\<lparr>taskRepository := r'\<rparr>)
                     | (Inr updatedTask, r') \<Rightarrow>
                         (Inr (succeed (Some (task_or_null updatedTask))
                                 (Some (''Task '' @ (if newStatus = ''completed''
                                                     then ''selesai'' else ''belum selesai'')))
                                 None),
                          c\<lparr>taskRepository := r'\<rparr>))))"

definition toggleTaskStatus ::
  "entity \<Rightarrow> string \<Rightarrow> string \<Rightarrow> controller \<Rightarrow> (exn + envelope) \<times> controller" where
  "toggleTaskStatus E tmsg taskId c = try_catch (toggleTaskStatus_body E tmsg taskId c)"

definition mine :: "user \<Rightarrow> task \<Rightarrow> bool" where
  "mine cu t = (ownerId t = id_user cu \<or> assigneeId t = id_user cu)"

definition searchTasks_body ::
  "string option \<Rightarrow> controller \<Rightarrow> (exn + envelope) \<times> controller" where
  "searchTasks_body q c =
     (case currentUser c of
        None \<Rightarrow> (Inr (failure login_required), c)
      | Some cu \<Rightarrow>
          if blank q then (Inr (failure ''Query pencarian tidak boleh kosong''), c)
          else
            let allResults = search (taskRepository c) (the q);
                userResults = filter (mine cu) allResults
            in (Inr ((succeed (Some (Tasks userResults)) None (Some (length userResults)))
                       \<lparr>query := q\<rparr>), c))"

definition searchTasks :: "string option \<Rightarrow> controller \<Rightarrow> (exn + envelope) \<times> controller" where
  "searchTasks q c = try_catch (searchTasks_body q c)"

definition getTaskStats_body :: "controller \<Rightarrow> (exn + envelope) \<times> controller" where
  "getTaskStats_body c =
     (case currentUser c of
        None \<Rightarrow> (Inr (failure login_required), c)
      | Some cu \<Rightarrow>
          (Inr (succeed (Some (Statistics (getStats (taskRepository c) (Some (id_user cu)))))
                  None None), c))"

definition getTaskStats :: "controller \<Rightarrow> (exn + envelope) \<times> controller" where
  "getTaskStats c = try_catch (getTaskStats_body c)"

definition getOverdueTasks_body :: "controller \<Rightarrow> (exn + envelope) \<times> controller" where
  "getOverdueTasks_body c =
     (case currentUser c of
        None \<Rightarrow> (Inr (failure login_required), c)
      | Some cu \<Rightarrow>
          let overdueTasks = filter (mine cu) (findOverdue (taskRepository c))
          in (Inr (succeed (Some (Tasks overdueTasks)) None (Some (length overdueTasks))), c))"

definition getOverdueTasks :: "controller \<Rightarrow> (exn + envelope) \<times> controller" where
  "getOverdueTasks c = try_catch (getOverdueTasks_body c)"

text \<open>\<open>getTasksDueSoon(days = 3)\<close>: \<open>None\<close> is the argument left out.\<close>

definition getTasksDueSoon_body :: "int option \<Rightarrow> controller \<Rightarrow> (exn + envelope) \<times> controller" where
  "getTasksDueSoon_body days c =
     (case currentUser c of
        None \<Rightarrow> (Inr (failure login_required), c)
      | Some cu \<Rightarrow>
          let dueSoonTasks = filter (mine cu)
                (findDueSoon (taskRepository c) (case days of None \<Rightarrow> 3 | Some n \<Rightarrow> n))
          in (Inr (succeed (Some (Tasks dueSoonTasks)) None (Some (length dueSoonTasks))), c))"

definition getTasksDueSoon :: "int option \<Rightarrow> controller \<Rightarrow> (exn + envelope) \<times> controller" where
  "getTasksDueSoon days c = try_catch (getTasksDueSoon_body days c)"

section \<open>An entity layer and data for the examples\<close>

text \<open>
  Modelled from the spec: the class \<open>EnhancedTask\<close> is not part of the sources at hand.
  The spec gives the fixed values of priority, status and category, says that a mutation
  validates its argument and fails with a message that embeds the offending value, that
  time spent is added up, that tags are a set in insertion order and that notes are
  appended. \<open>spec_entity\<close> is one entity layer of that kind; the examples run on it.
\<close>

definition priorities :: "string list" where
  "priorities = [''low'', ''medium'', ''high'', ''urgent'']"

definition statuses :: "string list" where
  "statuses = [''pending'', ''in-progress'', ''blocked'', ''completed'', ''cancelled'']"

definition categories :: "string list" where
  "categories = [''work'', ''personal'', ''study'', ''health'', ''finance'', ''other'']"

definition mk_task :: "string \<Rightarrow> string \<Rightarrow> string \<Rightarrow> string \<Rightarrow> task" where
  "mk_task i ttl own asg =
     \<lparr>id_task = i, title = ttl, description = [], ownerId = own, assigneeId = asg,
      category = ''personal'', priority = ''medium'', status = ''pending'', dueDate = None,
      createdAt = 0, estimatedHours = 0, timeSpent = 0, tags = [], notes_task = [],
      isOverdue = False, daysUntilDue = None\<rparr>"

definition checked ::
  "string list \<Rightarrow> string \<Rightarrow> string \<Rightarrow> task \<Rightarrow> exn + task" where
  "checked allowed what v t =
     (if v \<in> set allowed then Inr t else Inl (Error (what @ '' tidak valid: '' @ v)))"

definition spec_entity :: entity where
  "spec_entity =
     \<lparr>construct = (\<lambda>n ttl desc own d.
        case ttl of
          None \<Rightarrow> Inl (Error ''Judul task wajib diisi'')
        | Some x \<Rightarrow>
            (case own of
               None \<Rightarrow> Inl (Error ''Owner wajib diisi'')
             | Some y \<Rightarrow>
                 checked priorities ''Prioritas'' (or_else (d_priority d) ''medium'')
                   ((mk_task (''task_'' @ replicate n (CHR ''i'')) x y
                       (or_else (d_assigneeId d) y))
                      \<lparr>description := desc,
                       priority := or_else (d_priority d) ''medium'',
                       category := or_else (d_category d) ''personal'',
                       dueDate := d_dueDate d,
                       createdAt := int n\<rparr>))),
      updateTitle = (\<lambda>v t.
        if trim v = [] then Inl (Error ''Judul task wajib diisi'') else Inr (t\<lparr>title := trim v\<rparr>)),
      updateDescription = (\<lambda>v t. Inr (t\<lparr>description := v\<rparr>)),
      updateCategory = (\<lambda>v t. checked categories ''Kategori'' v (t\<lparr>category := v\<rparr>)),
      updatePriority = (\<lambda>v t. checked priorities ''Prioritas'' v (t\<lparr>priority := v\<rparr>)),
      updateStatus = (\<lambda>v t. checked statuses ''Status'' v (t\<lparr>status := v\<rparr>)),
      setDueDate = (\<lambda>v t. Inr (t\<lparr>dueDate := Some v\<rparr>)),
      assignTo = (\<lambda>v t. Inr (t\<lparr>assigneeId := v\<rparr>)),
      setEstimatedHours = (\<lambda>v t.
        if v < 0 then Inl (Error ''Estimasi jam tidak valid'') else Inr (t\<lparr>estimatedHours := v\<rparr>)),
      addTimeSpent = (\<lambda>v t.
        if v \<le> 0 then Inl (Error ''Waktu tidak valid'') else Inr (t\<lparr>timeSpent := timeSpent t + v\<rparr>)),
      addTag = (\<lambda>v t. Inr (if v \<in> set (tags t) then t else t\<lparr>tags := tags t @ [v]\<rparr>)),
      removeTag = (\<lambda>v t. Inr (t\<lparr>tags := filter (\<lambda>x. x \<noteq> v) (tags t)\<rparr>)),
      addNote = (\<lambda>v t. Inr (t\<lparr>notes_task := notes_task t @ [v]\<rparr>))\<rparr>"

text \<open>
  Two users; one task that Alice owns and Bob is assigned, two days past its due date.
\<close>

definition alice :: user where
  "alice = \<lparr>id_user = ''u1'', username = ''alice'', email = ''alice@example.com'',
     fullName = ''Alice'', isActive = True\<rparr>"

definition bob :: user where
  "bob = \<lparr>id_user = ''u2'', username = ''bob'', email = ''bob@example.com'',
     fullName = ''Bob'', isActive = True\<rparr>"

definition late_task :: task where
  "late_task = (mk_task ''t1'' ''Buy milk'' ''u1'' ''u2'')
     \<lparr>dueDate := Some 0, isOverdue := True, daysUntilDue := Some (- 2)\<rparr>"

definition bobs_task :: task where
  "bobs_task = (mk_task ''t2'' ''Pay rent'' ''u2'' ''u2'')\<lparr>priority := ''urgent''\<rparr>"

definition one_repo :: repo where
  "one_repo = \<lparr>tasks = [(''t1'', late_task)], stored = [late_task], saves = 0, clock = 1\<rparr>"

definition two_repo :: repo where
  "two_repo = \<lparr>tasks = [(''t1'', late_task), (''t2'', bobs_task)],
     stored = [late_task, bobs_task], saves = 0, clock = 2\<rparr>"

definition logged_out :: controller where
  "logged_out = \<lparr>taskRepository = one_repo,
     userRepository = [(''u1'', alice), (''u2'', bob)], currentUser = None\<rparr>"

definition as_alice :: controller where
  "as_alice = \<lparr>taskRepository = two_repo,
     userRepository = [(''u1'', alice), (''u2'', bob)], currentUser = Some alice\<rparr>"

definition as_bob :: controller where
  "as_bob = \<lparr>taskRepository = two_repo,
     userRepository = [(''u1'', alice), (''u2'', bob)], currentUser = Some bob\<rparr>"

text \<open>
  A user whose id is the empty string, in a controller where that user is logged in.
\<close>

definition nameless :: user where
  "nameless = \<lparr>id_user = [], username = ''ghost'', email = ''ghost@example.com'',
     fullName = ''Ghost'', isActive = True\<rparr>"

definition as_nameless :: controller where
  "as_nameless = \<lparr>taskRepository = two_repo,
     userRepository = [([], nameless), (''u1'', alice), (''u2'', bob)],
     currentUser = Some nameless\<rparr>"

text \<open>
  Task data with a title and a priority outside the fixed values, and an entity layer
  that refuses every change of status.
\<close>

definition no_data :: taskData where
  "no_data = \<lparr>d_title = None, d_description = None, d_ownerId = None, d_assigneeId = None,
     d_category = None, d_priority = None, d_dueDate = None, d_estimatedHours = None,
     d_tags = None\<rparr>"

definition huge_data :: taskData where
  "huge_data = no_data\<lparr>d_title := Some ''Buy tea'', d_priority := Some ''huge''\<rparr>"

definition frozen_entity :: entity where
  "frozen_entity = spec_entity\<lparr>updateStatus := (\<lambda>v t. Inl (Error ''Status terkunci''))\<rparr>"

text \<open>
  An \<open>updates\<close> object with a good title, a priority outside the fixed values and a
  good status.
\<close>

definition three_updates :: updates where
  "three_updates = no_updates\<lparr>u_title := Some ''Buy tea'', u_priority := Some ''huge'',
     u_status := Some ''completed''\<rparr>"

section \<open>Notions of the specification\<close>

text \<open>
  The code points that ECMAScript counts as white space or as line terminators, which
  are the characters \<open>String.prototype.trim\<close> removes, and the UTF-8 form of a code
  point. A string made of white space only is the UTF-8 form of a list of such code
  points.
\<close>

definition utf8_bytes :: "nat \<Rightarrow> nat list" where
  "utf8_bytes n =
     (if n < 0x80 then [n]
      else if n < 0x800 then [0xC0 + n div 64, 0x80 + n mod 64]
      else if n < 0x10000
      then [0xE0 + n div 4096, 0x80 + (n div 64) mod 64, 0x80 + n mod 64]
      else [0xF0 + n div 262144, 0x80 + (n div 4096) mod 64,
            0x80 + (n div 64) mod 64, 0x80 + n mod 64])"

definition utf8 :: "nat \<Rightarrow> string" where
  "utf8 n = map char_of (utf8_bytes n)"

definition white_space :: "nat list" where
  "white_space =
     [0x0009, 0x000A, 0x000B, 0x000C, 0x000D, 0x0020, 0x00A0, 0x1680,
      0x2000, 0x2001, 0x2002, 0x2003, 0x2004, 0x2005, 0x2006, 0x2007, 0x2008, 0x2009,
      0x200A, 0x2028, 0x2029, 0x202F, 0x205F, 0x3000, 0xFEFF]"

text \<open>
  The ordinal of a priority as the specification gives it: low is 1, medium 2, high 3,
  urgent 4. \<open>desc a b\<close> says that \<open>a\<close> may stand before \<open>b\<close> in a list in descending
  order of priority.
\<close>

definition ordinal :: "string \<Rightarrow> nat" where
  "ordinal k = (if k = ''low'' then 1 else if k = ''medium'' then 2
                else if k = ''high'' then 3 else if k = ''urgent'' then 4 else 0)"

definition desc :: "task \<Rightarrow> task \<Rightarrow> bool" where
  "desc a b = (ordinal (priority b) \<le> ordinal (priority a))"

text \<open>
  The mutations of one \<open>update\<close> call as the specification lists them: one per
  recognised key present in \<open>updates\<close>, in the order title, description, category,
  priority, status, dueDate, assigneeId, estimatedHours, addTimeSpent, addTag, removeTag,
  addNote. \<open>run_mutations\<close> applies a list of mutations from the left and stops at the
  first that raises, with the task as the mutations before it left it.
\<close>

definition present ::
  "'v option \<Rightarrow> ('v \<Rightarrow> task \<Rightarrow> exn + task) \<Rightarrow> (task \<Rightarrow> exn + task) list" where
  "present v m = (case v of None \<Rightarrow> [] | Some x \<Rightarrow> [m x])"

definition mutations :: "entity \<Rightarrow> updates \<Rightarrow> (task \<Rightarrow> exn + task) list" where
  "mutations E u =
     present (u_title u) (updateTitle E) @
     present (u_description u) (updateDescription E) @
     present (u_category u) (updateCategory E) @
     present (u_priority u) (updatePriority E) @
     present (u_status u) (updateStatus E) @
     present (u_dueDate u) (setDueDate E) @
     present (u_assigneeId u) (assignTo E) @
     present (u_estimatedHours u) (setEstimatedHours E) @
     present (u_addTimeSpent u) (addTimeSpent E) @
     present (u_addTag u) (addTag E) @
     present (u_removeTag u) (removeTag E) @
     present (u_addNote u) (addNote E)"

fun run_mutations :: "(task \<Rightarrow> exn + task) list \<Rightarrow> task \<Rightarrow> task \<times> exn option" where
  "run_mutations [] t = (t, None)"
| "run_mutations (m # ms) t =
     (case m t of Inl e \<Rightarrow> (t, Some e) | Inr t' \<Rightarrow> run_mutations ms t')"

text \<open>
  The result of an operation is an envelope: a value was returned, not an error raised,
  and it is either a success without \<open>error\<close> or \<open>{success: false, error: m}\<close> with no
  other key.
\<close>

definition is_envelope :: "exn + envelope \<Rightarrow> bool" where
  "is_envelope res =
     (case res of
        Inl e \<Rightarrow> False
      | Inr env \<Rightarrow>
          if success env then error env = None
          else error env \<noteq> None \<and> data env = None \<and> message env = None
               \<and> count env = None \<and> query env = None)"

section \<open>Properties of the repository\<close>

subsection \<open>White space\<close>

lemma stripAll_stop: "strip1 ws s = None \<Longrightarrow> stripAll ws s = s"
  by (subst stripAll.simps) simp

lemma stripAll_step: "strip1 ws s = Some r \<Longrightarrow> stripAll ws s = stripAll ws r"
  by (subst stripAll.simps) simp

lemma strip1_Nil: "strip1 ws [] = None"
  by (induction ws) (auto simp: neq_Nil_conv)

lemma stripAll_Nil: "stripAll ws [] = []"
  by (simp add: stripAll_stop strip1_Nil)

text \<open>No white space character is the start of another, so the one in front is taken.\<close>

lemma strip1_white:
  assumes "w \<in> set whitespace"
  shows "strip1 whitespace (w @ rest) = Some rest"
  using assms unfolding whitespace_def
  apply (simp only: list.set insert_iff empty_iff)
  apply (elim disjE)
  apply simp_all
  done

lemma stripAll_white:
  assumes "set ws \<subseteq> set whitespace"
  shows "stripAll whitespace (concat ws) = []"
  using assms
proof (induction ws)
  case Nil
  show ?case by (simp add: stripAll_Nil)
next
  case (Cons w ws)
  have "strip1 whitespace (w @ concat ws) = Some (concat ws)"
    using Cons.prems by (simp add: strip1_white)
  then show ?case using Cons by (simp add: stripAll_step)
qed

lemma trim_white: "set ws \<subseteq> set whitespace \<Longrightarrow> trim (concat ws) = []"
  by (simp add: trim_def stripAll_white stripAll_Nil)

text \<open>The bytes that \<open>trim\<close> looks for are the UTF-8 forms of these code points.\<close>

lemma white_bytes: "map (map of_char) whitespace = map utf8_bytes white_space"
  by (simp add: whitespace_def white_space_def utf8_bytes_def)

lemma utf8_white_space: "map utf8 white_space = whitespace"
proof -
  have "map utf8 white_space = map (map char_of) (map utf8_bytes white_space)"
    by (simp add: utf8_def comp_def)
  also have "\<dots> = map (map char_of) (map (map (of_char :: char \<Rightarrow> nat)) whitespace)"
    by (simp only: white_bytes)
  also have "\<dots> = whitespace" by (simp add: comp_def)
  finally show ?thesis .
qed

lemma trim_white_space:
  assumes "set cps \<subseteq> set white_space"
  shows "trim (concat (map utf8 cps)) = []"
proof -
  have "set (map utf8 cps) \<subseteq> set (map utf8 white_space)" using assms by auto
  then have "set (map utf8 cps) \<subseteq> set whitespace" by (simp only: utf8_white_space)
  then show ?thesis by (rule trim_white)
qed

subsection \<open>Lookup, update and delete of an absent id\<close>

lemma map_of_absent: "i \<notin> set (map fst m) \<Longrightarrow> map_of m i = None"
  by (simp add: map_of_eq_None_iff)

text \<open>
  C8. Absence is a null or false result, never a raised error: for an id that is not in
  the index, \<open>findById\<close> returns null, \<open>update\<close> returns null and leaves the repository
  as it was (no mutation, no save), and \<open>delete\<close> returns false and leaves the
  repository as it was.
\<close>

theorem absent_id_is_null:
  assumes "i \<notin> set (map fst (tasks r))"
  shows "findById r i = None \<and> update E i u r = (Inr None, r) \<and> delete i r = (False, r)"
proof -
  have n: "map_of (tasks r) i = None" using assms by (rule map_of_absent)
  have a: "findById r i = None" using n by (simp add: findById_def)
  have b: "update E i u r = (Inr None, r)" using a by (simp add: update_def)
  have c: "delete i r = (False, r)" using n by (simp add: delete_def map_has_def)
  from a b c show ?thesis by simp
qed

theorem absent_id_is_null_witness:
  "''t9'' \<notin> set (map fst (tasks one_repo)) \<and> findById one_repo ''t9'' = None
   \<and> update spec_entity ''t9'' (no_updates\<lparr>u_title := Some ''x''\<rparr>) one_repo
       = (Inr None, one_repo)
   \<and> delete ''t9'' one_repo = (False, one_repo)"
proof -
  have h: "''t9'' \<notin> set (map fst (tasks one_repo))" by (simp add: one_repo_def)
  show ?thesis using h absent_id_is_null [OF h] by simp
qed

text \<open>
  C2. The claim is that \<open>dueSoon\<close> of \<open>getStats\<close> counts the tasks in scope whose
  \<open>daysUntilDue\<close> lies in 0..3, as \<open>findDueSoon(3)\<close> does. \<open>getStats\<close> tests only
  \<open>daysUntilDue <= 3\<close>: on the repository that holds one task two days past its due
  date it counts that task, and \<open>findDueSoon(3)\<close> returns no task.
\<close>

theorem getStats_dueSoon_counts_late_task:
  "daysUntilDue late_task = Some (- 2)
   \<and> dueSoon (getStats one_repo None) = 1
   \<and> dueSoon (getStats one_repo (Some ''u1'')) = 1
   \<and> length (findDueSoon one_repo 3) = 0"
  by (simp add: getStats_def findDueSoon_def findByOwner_def findAll_def one_repo_def
      late_task_def mk_task_def)

text \<open>
  What \<open>getStats\<close> counts beyond \<open>findDueSoon(3)\<close>: the tasks past their due date.
\<close>

lemma dueSoon_split:
  "length (filter (\<lambda>t. case daysUntilDue t of None \<Rightarrow> False | Some d \<Rightarrow> d \<le> 3) xs)
     = length (filter (\<lambda>t. case daysUntilDue t of
                             None \<Rightarrow> False | Some d \<Rightarrow> d \<le> 3 \<and> d \<ge> 0) xs)
       + length (filter (\<lambda>t. case daysUntilDue t of None \<Rightarrow> False | Some d \<Rightarrow> d < 0) xs)"
  by (induction xs) (auto split: option.splits)

lemma getStats_dueSoon_code:
  "dueSoon (getStats r None)
     = length (findDueSoon r 3)
       + length (filter (\<lambda>t. case daysUntilDue t of None \<Rightarrow> False | Some d \<Rightarrow> d < 0)
                   (findAll r))"
  by (simp add: getStats_def findDueSoon_def dueSoon_split Let_def)

subsection \<open>The sort\<close>

lemma set_insert_by: "set (insert_by cmp x ys) = insert x (set ys)"
  by (induction ys) auto

lemma mset_insert_by: "mset (insert_by cmp x ys) = add_mset x (mset ys)"
  by (induction ys) auto

lemma mset_foldl_insert_by:
  "mset (foldl (\<lambda>acc x. insert_by cmp x acc) acc xs) = mset acc + mset xs"
  by (induction xs arbitrary: acc) (simp_all add: mset_insert_by)

lemma mset_array_sort: "mset (array_sort cmp xs) = mset xs"
  by (simp add: array_sort_def mset_foldl_insert_by)

lemma set_array_sort: "set (array_sort cmp xs) = set xs"
  using mset_array_sort [of cmp xs] by (metis set_mset_mset)

lemma set_sort_tasks: "set (sort_tasks ts sortBy order) = set ts"
  by (simp add: sort_tasks_def set_array_sort)

text \<open>
  Inserting keeps a list ordered by a transitive relation \<open>R\<close> when the comparator's
  answer on the new element agrees with \<open>R\<close> in both directions.
\<close>

lemma sorted_wrt_insert_by:
  assumes tr: "\<And>a b c. R a b \<Longrightarrow> R b c \<Longrightarrow> R a c"
    and lt: "\<And>y. y \<in> set ys \<Longrightarrow> cmp x y < 0 \<Longrightarrow> R x y"
    and ge: "\<And>y. y \<in> set ys \<Longrightarrow> \<not> cmp x y < 0 \<Longrightarrow> R y x"
    and so: "sorted_wrt R ys"
  shows "sorted_wrt R (insert_by cmp x ys)"
  using lt ge so
proof (induction ys)
  case Nil
  then show ?case by simp
next
  case (Cons y ys)
  show ?case
  proof (cases "cmp x y < 0")
    case True
    then have xy: "R x y" using Cons.prems(1) by simp
    have "\<forall>z \<in> set ys. R x z"
    proof
      fix z assume "z \<in> set ys"
      then have "R y z" using Cons.prems(3) by simp
      then show "R x z" by (rule tr [OF xy])
    qed
    then show ?thesis using True xy Cons.prems(3) by simp
  next
    case False
    then have yx: "R y x" using Cons.prems(2) by simp
    have ih: "sorted_wrt R (insert_by cmp x ys)"
      using Cons.IH Cons.prems by simp
    show ?thesis using False yx ih Cons.prems(3) by (simp add: set_insert_by)
  qed
qed

lemma p_lt:
  assumes "priority a \<in> set priorities" "priority b \<in> set priorities"
  shows "js_lt (p (priority a)) (p (priority b)) = (ordinal (priority a) < ordinal (priority b))"
  using assms by (auto simp: priorities_def p_def ordinal_def)

lemma comparator_desc:
  assumes "priority a \<in> set priorities" "priority b \<in> set priorities"
  shows "(comparator ''priority'' ''desc'' a b < 0) = desc a b"
  using p_lt [OF assms]
  by (simp add: comparator_def sort_value_def Let_def desc_def not_less)

lemma sorted_foldl:
  assumes "\<forall>t \<in> set xs. priority t \<in> set priorities"
    and "\<forall>t \<in> set acc. priority t \<in> set priorities"
    and "sorted_wrt desc acc"
  shows "sorted_wrt desc
           (foldl (\<lambda>acc x. insert_by (comparator ''priority'' ''desc'') x acc) acc xs)"
  using assms
proof (induction xs arbitrary: acc)
  case Nil
  then show ?case by simp
next
  case (Cons x xs)
  have px: "priority x \<in> set priorities" using Cons.prems(1) by simp
  have s: "sorted_wrt desc (insert_by (comparator ''priority'' ''desc'') x acc)"
  proof (rule sorted_wrt_insert_by)
    show "\<And>a b c. desc a b \<Longrightarrow> desc b c \<Longrightarrow> desc a c" by (simp add: desc_def)
    show "\<And>y. y \<in> set acc \<Longrightarrow> comparator ''priority'' ''desc'' x y < 0 \<Longrightarrow> desc x y"
      using comparator_desc px Cons.prems(2) by blast
    show "\<And>y. y \<in> set acc \<Longrightarrow> \<not> comparator ''priority'' ''desc'' x y < 0 \<Longrightarrow> desc y x"
    proof -
      fix y assume y: "y \<in> set acc" and n: "\<not> comparator ''priority'' ''desc'' x y < 0"
      have "\<not> desc x y" using comparator_desc [OF px] y Cons.prems(2) n by blast
      then show "desc y x" by (simp add: desc_def)
    qed
    show "sorted_wrt desc acc" by (rule Cons.prems(3))
  qed
  have v: "\<forall>t \<in> set (insert_by (comparator ''priority'' ''desc'') x acc).
             priority t \<in> set priorities"
    using px Cons.prems(2) by (simp add: set_insert_by)
  show ?case using Cons.IH [OF _ v s] Cons.prems(1) by simp
qed

text \<open>
  C9. For a list of tasks whose priorities are among low, medium, high and urgent,
  \<open>sort(tasks, 'priority', 'desc')\<close> returns the same tasks, and a task with a higher
  ordinal stands before every task with a strictly lower one: where the task at
  position \<open>i\<close> has a higher ordinal than the task at position \<open>j\<close>, \<open>i\<close> is less than
  \<open>j\<close>. So all urgent tasks precede all high, these all medium, these all low.
\<close>

theorem sort_priority_desc:
  assumes "\<forall>t \<in> set ts. priority t \<in> set [''low'', ''medium'', ''high'', ''urgent'']"
  shows "mset (sort_tasks ts ''priority'' ''desc'') = mset ts
    \<and> (\<forall>i j. i < length ts \<and> j < length ts
          \<and> ordinal (priority (sort_tasks ts ''priority'' ''desc'' ! j))
              < ordinal (priority (sort_tasks ts ''priority'' ''desc'' ! i))
         \<longrightarrow> i < j)"
proof -
  let ?res = "sort_tasks ts ''priority'' ''desc''"
  have m: "mset ?res = mset ts" by (simp add: sort_tasks_def mset_array_sort)
  then have len: "length ?res = length ts" by (metis size_mset)
  have v: "\<forall>t \<in> set ts. priority t \<in> set priorities" using assms by (simp add: priorities_def)
  have s: "sorted_wrt desc ?res"
    unfolding sort_tasks_def array_sort_def by (rule sorted_foldl [OF v]) simp_all
  have o: "\<forall>i j. i < length ts \<and> j < length ts
          \<and> ordinal (priority (?res ! j)) < ordinal (priority (?res ! i)) \<longrightarrow> i < j"
  proof (intro allI impI)
    fix i j
    assume h: "i < length ts \<and> j < length ts
          \<and> ordinal (priority (?res ! j)) < ordinal (priority (?res ! i))"
    show "i < j"
    proof (rule ccontr)
      assume "\<not> i < j"
      then have "j < i \<or> j = i" by arith
      then show False
      proof
        assume ji: "j < i"
        have "desc (?res ! j) (?res ! i)"
          using s ji h len by (simp add: sorted_wrt_iff_nth_less)
        then show False using h by (simp add: desc_def)
      next
        assume "j = i"
        then show False using h by simp
      qed
    qed
  qed
  show ?thesis by (rule conjI [OF m o])
qed

theorem sort_priority_desc_witness:
  "priority late_task \<in> set [''low'', ''medium'', ''high'', ''urgent'']
   \<and> priority bobs_task \<in> set [''low'', ''medium'', ''high'', ''urgent'']
   \<and> sort_tasks [late_task, bobs_task] ''priority'' ''desc'' = [bobs_task, late_task]
   \<and> mset (sort_tasks [late_task, bobs_task] ''priority'' ''desc'') = mset [late_task, bobs_task]
   \<and> ordinal (priority late_task) < ordinal (priority bobs_task)"
proof -
  have a: "priority late_task = ''medium''" by (simp add: late_task_def mk_task_def)
  have b: "priority bobs_task = ''urgent''" by (simp add: bobs_task_def mk_task_def)
  have p1: "priority late_task \<in> set [''low'', ''medium'', ''high'', ''urgent'']"
    using a by simp
  have p2: "priority bobs_task \<in> set [''low'', ''medium'', ''high'', ''urgent'']"
    using b by simp
  have h: "\<forall>t \<in> set [late_task, bobs_task].
             priority t \<in> set [''low'', ''medium'', ''high'', ''urgent'']"
    using p1 p2 by simp
  have c: "sort_tasks [late_task, bobs_task] ''priority'' ''desc'' = [bobs_task, late_task]"
    using a b by (simp add: sort_tasks_def array_sort_def comparator_def sort_value_def p_def)
  have d: "ordinal (priority late_task) < ordinal (priority bobs_task)"
    using a b by (simp add: ordinal_def)
  have e: "mset (sort_tasks [late_task, bobs_task] ''priority'' ''desc'')
             = mset [late_task, bobs_task]"
    using sort_priority_desc [OF h] by (rule conjunct1)
  from p1 p2 c e d show ?thesis by (intro conjI)
qed

subsection \<open>The order of the mutations in update\<close>

lemma mutate_start: "mutate v m (t, None) = run_mutations (present v m) t"
  by (cases v) (simp_all add: mutate_def present_def split: sum.splits)

lemma mutate_run: "mutate v m (run_mutations ms t) = run_mutations (ms @ present v m) t"
proof (induction ms arbitrary: t)
  case Nil
  show ?case by (simp add: mutate_start)
next
  case (Cons a ms)
  show ?case
  proof (cases "a t")
    case (Inl e)
    then show ?thesis by (simp add: mutate_def)
  next
    case (Inr t')
    then show ?thesis using Cons.IH [of t'] by simp
  qed
qed

text \<open>The twelve lines of \<open>update\<close> run the list of the specification.\<close>

lemma apply_updates_run: "apply_updates E u t = run_mutations (mutations E u) t"
proof -
  have s: "(t, None) = run_mutations [] t" by simp
  show ?thesis
    unfolding apply_updates_def Let_def mutations_def
    by (subst s) (simp only: mutate_run append_Nil append_assoc)
qed

lemma run_mutations_append:
  "run_mutations (pre @ ms) t =
     (case run_mutations pre t of
        (t', None) \<Rightarrow> run_mutations ms t'
      | (t', Some e) \<Rightarrow> (t', Some e))"
proof (induction pre arbitrary: t)
  case Nil
  show ?case by simp
next
  case (Cons a pre)
  show ?case by (cases "a t") (simp_all add: Cons.IH)
qed

lemma run_stops:
  assumes "run_mutations pre t = (t', None)" and "m t' = Inl e"
  shows "run_mutations (pre @ m # post) t = (t', Some e)"
  using assms by (simp add: run_mutations_append)

lemma map_of_map_set: "map_of (map_set k v m) k = Some v"
  by (induction m) auto

text \<open>Where the repository raises: with the constructor, and with a mutation.\<close>

lemma create_raises:
  assumes "construct E (clock r) (d_title d) (or_else (d_description d) []) (d_ownerId d) d = Inl e"
  shows "create E d r = (Inl e, r\<lparr>clock := Suc (clock r)\<rparr>)"
  using assms by (simp add: create_def Let_def)

lemma update_raises:
  assumes "findById r i = Some t" and "mutations E u = pre @ m # post"
    and "run_mutations pre t = (t', None)" and "m t' = Inl e"
  shows "update E i u r = (Inl e, r\<lparr>tasks := map_set i t' (tasks r)\<rparr>)"
proof -
  have "apply_updates E u t = (t', Some e)"
    using assms(2-4) by (simp add: apply_updates_run run_stops)
  then show ?thesis using assms(1) by (simp add: update_def)
qed

text \<open>
  C4. On a present id \<open>update\<close> applies the mutations of the keys present in \<open>updates\<close>
  in the fixed order. If the mutation at some place of that list raises after the ones
  before it went through, \<open>update\<close> raises that error, the task in the index is the one
  the earlier mutations left, no later mutation has run (what follows in the list does
  not matter), and nothing was saved: the stored list and the count of saves are as
  before. If no mutation raises, the changed task is returned and the index is saved.
\<close>

theorem update_applies_in_order:
  assumes "findById r i = Some t"
  shows "(\<forall>pre m post t' e.
            mutations E u = pre @ m # post \<and> run_mutations pre t = (t', None) \<and> m t' = Inl e
            \<longrightarrow> update E i u r = (Inl e, r\<lparr>tasks := map_set i t' (tasks r)\<rparr>)
              \<and> findById (snd (update E i u r)) i = Some t'
              \<and> stored (snd (update E i u r)) = stored r
              \<and> saves (snd (update E i u r)) = saves r)
       \<and> (\<forall>t'. run_mutations (mutations E u) t = (t', None)
            \<longrightarrow> update E i u r
                  = (Inr (Some t'), saveTasksToStorage (r\<lparr>tasks := map_set i t' (tasks r)\<rparr>)))"
proof (rule conjI; intro allI impI)
  fix pre m post t' e
  assume h: "mutations E u = pre @ m # post \<and> run_mutations pre t = (t', None) \<and> m t' = Inl e"
  then have "apply_updates E u t = (t', Some e)"
    by (simp add: apply_updates_run run_stops)
  then have u: "update E i u r = (Inl e, r\<lparr>tasks := map_set i t' (tasks r)\<rparr>)"
    using assms by (simp add: update_def)
  show "update E i u r = (Inl e, r\<lparr>tasks := map_set i t' (tasks r)\<rparr>)
        \<and> findById (snd (update E i u r)) i = Some t'
        \<and> stored (snd (update E i u r)) = stored r
        \<and> saves (snd (update E i u r)) = saves r"
    by (simp add: u findById_def map_of_map_set)
next
  fix t'
  assume "run_mutations (mutations E u) t = (t', None)"
  then have "apply_updates E u t = (t', None)" by (simp add: apply_updates_run)
  then show "update E i u r
        = (Inr (Some t'), saveTasksToStorage (r\<lparr>tasks := map_set i t' (tasks r)\<rparr>))"
    using assms by (simp add: update_def)
qed

lemma three_mutations:
  "mutations spec_entity three_updates
     = [updateTitle spec_entity ''Buy tea''] @ updatePriority spec_entity ''huge''
         # [updateStatus spec_entity ''completed'']"
  by (simp add: mutations_def present_def three_updates_def no_updates_def)

lemma trim_Buy_tea: "trim ''Buy tea'' = ''Buy tea''"
  by (simp add: trim_def stripAll_stop whitespace_def)

lemma title_goes_through:
  "run_mutations [updateTitle spec_entity ''Buy tea''] late_task
     = (late_task\<lparr>title := ''Buy tea''\<rparr>, None)"
  by (simp add: spec_entity_def trim_Buy_tea)

lemma priority_raises:
  "updatePriority spec_entity ''huge'' (late_task\<lparr>title := ''Buy tea''\<rparr>)
     = Inl (Error ''Prioritas tidak valid: huge'')"
  by (simp add: spec_entity_def checked_def priorities_def)

theorem update_applies_in_order_witness:
  "findById two_repo ''t1'' = Some late_task
   \<and> fst (update spec_entity ''t1'' three_updates two_repo)
       = Inl (Error ''Prioritas tidak valid: huge'')
   \<and> findById (snd (update spec_entity ''t1'' three_updates two_repo)) ''t1''
       = Some (late_task\<lparr>title := ''Buy tea''\<rparr>)
   \<and> stored (snd (update spec_entity ''t1'' three_updates two_repo)) = stored two_repo
   \<and> saves (snd (update spec_entity ''t1'' three_updates two_repo)) = saves two_repo"
proof -
  have a: "findById two_repo ''t1'' = Some late_task" by (simp add: findById_def two_repo_def)
  have k: "update spec_entity ''t1'' three_updates two_repo
          = (Inl (Error ''Prioritas tidak valid: huge''),
             two_repo\<lparr>tasks := map_set ''t1'' (late_task\<lparr>title := ''Buy tea''\<rparr>)
                                  (tasks two_repo)\<rparr>)
        \<and> findById (snd (update spec_entity ''t1'' three_updates two_repo)) ''t1''
            = Some (late_task\<lparr>title := ''Buy tea''\<rparr>)
        \<and> stored (snd (update spec_entity ''t1'' three_updates two_repo)) = stored two_repo
        \<and> saves (snd (update spec_entity ''t1'' three_updates two_repo)) = saves two_repo"
    using update_applies_in_order [OF a, of spec_entity three_updates] three_mutations
      title_goes_through priority_raises
    by blast
  then have f: "fst (update spec_entity ''t1'' three_updates two_repo)
                  = Inl (Error ''Prioritas tidak valid: huge'')"
    by simp
  from a f k show ?thesis by blast
qed

section \<open>Properties of the controller\<close>

text \<open>
  C6. A logged-in user who is not the owner of an existing task (its assignee too) gets
  \<open>{success: false, error: 'Hanya owner yang bisa mengubah task'}\<close> from \<open>updateTask\<close>,
  and the controller with its repository is as before: no field of the task has changed
  and nothing was saved.
\<close>

theorem updateTask_non_owner:
  assumes "currentUser c = Some cu"
    and "findById (taskRepository c) taskId = Some t"
    and "ownerId t \<noteq> id_user cu"
  shows "updateTask E taskId u c = (Inr (failure ''Hanya owner yang bisa mengubah task''), c)"
  using assms by (simp add: updateTask_def updateTask_body_def try_catch_def)

theorem updateTask_non_owner_witness:
  "currentUser as_bob = Some bob \<and> findById (taskRepository as_bob) ''t1'' = Some late_task
   \<and> assigneeId late_task = id_user bob \<and> ownerId late_task \<noteq> id_user bob
   \<and> updateTask spec_entity ''t1'' (no_updates\<lparr>u_title := Some ''Buy tea''\<rparr>) as_bob
       = (Inr (failure ''Hanya owner yang bisa mengubah task''), as_bob)"
proof -
  have a: "currentUser as_bob = Some bob" by (simp add: as_bob_def)
  have b: "findById (taskRepository as_bob) ''t1'' = Some late_task"
    by (simp add: as_bob_def two_repo_def findById_def)
  have c: "ownerId late_task \<noteq> id_user bob" by (simp add: late_task_def mk_task_def bob_def)
  have d: "assigneeId late_task = id_user bob" by (simp add: late_task_def mk_task_def bob_def)
  show ?thesis using a b c d updateTask_non_owner [OF a b c] by simp
qed

lemma includes_empty: "includes_str s [] = True"
  by (induction s) simp_all

lemma search_empty: "search r [] = findAll r"
  by (simp add: search_def toLowerCase_def includes_empty)

text \<open>
  C10. With a current user set, \<open>searchTasks\<close> returns
  \<open>{success: false, error: 'Query pencarian tidak boleh kosong'}\<close> for a query that is
  absent, empty or made of white space only (any sequence of white space and line
  terminator code points, the empty one included), and leaves the controller as it
  was; the repository's \<open>search\<close>, which on the empty query returns every task, is not
  reached.
\<close>

theorem searchTasks_blank_query:
  assumes "currentUser c = Some cu"
    and "q = None \<or> (\<exists>cps. q = Some (concat (map utf8 cps)) \<and> set cps \<subseteq> set white_space)"
  shows "searchTasks q c = (Inr (failure ''Query pencarian tidak boleh kosong''), c)
         \<and> search (taskRepository c) [] = findAll (taskRepository c)"
proof -
  have "blank q" using assms(2) by (auto simp: blank_def trim_white_space)
  then show ?thesis using assms(1)
    by (simp add: searchTasks_def searchTasks_body_def try_catch_def search_empty)
qed

text \<open>
  The query of the example is a space, a no-break space (U+00A0), a line separator
  (U+2028), a byte order mark (U+FEFF) and a tab.
\<close>

lemma example_query_bytes:
  "concat (map utf8 [0x20, 0xA0, 0x2028, 0xFEFF, 0x09])
     = [CHR 0x20, CHR 0xC2, CHR 0xA0, CHR 0xE2, CHR 0x80, CHR 0xA8,
        CHR 0xEF, CHR 0xBB, CHR 0xBF, CHR 0x09]"
  using utf8_white_space by (simp add: white_space_def whitespace_def)

theorem searchTasks_blank_query_witness:
  "currentUser as_alice = Some alice
   \<and> searchTasks
         (Some [CHR 0x20, CHR 0xC2, CHR 0xA0, CHR 0xE2, CHR 0x80, CHR 0xA8,
                CHR 0xEF, CHR 0xBB, CHR 0xBF, CHR 0x09]) as_alice
       = (Inr (failure ''Query pencarian tidak boleh kosong''), as_alice)
   \<and> searchTasks (Some []) as_alice
       = (Inr (failure ''Query pencarian tidak boleh kosong''), as_alice)
   \<and> searchTasks None as_alice
       = (Inr (failure ''Query pencarian tidak boleh kosong''), as_alice)
   \<and> search (taskRepository as_alice) [] = findAll (taskRepository as_alice)"
proof -
  let ?cps = "[0x20, 0xA0, 0x2028, 0xFEFF, 0x09] :: nat list"
  have a: "currentUser as_alice = Some alice" by (simp add: as_alice_def)
  have w: "set ?cps \<subseteq> set white_space" by (simp add: white_space_def)
  have b: "Some (concat (map utf8 ?cps)) = None
           \<or> (\<exists>cps. Some (concat (map utf8 ?cps)) = Some (concat (map utf8 cps))
                     \<and> set cps \<subseteq> set white_space)"
    using w by blast
  have e: "Some [] = None
           \<or> (\<exists>cps. Some [] = Some (concat (map utf8 cps)) \<and> set cps \<subseteq> set white_space)"
    by (rule disjI2, rule exI [of _ "[]"]) simp
  have n: "None = None
           \<or> (\<exists>cps. (None :: string option) = Some (concat (map utf8 cps))
                     \<and> set cps \<subseteq> set white_space)"
    by simp
  have r1: "searchTasks (Some (concat (map utf8 ?cps))) as_alice
              = (Inr (failure ''Query pencarian tidak boleh kosong''), as_alice)
            \<and> search (taskRepository as_alice) [] = findAll (taskRepository as_alice)"
    by (rule searchTasks_blank_query [OF a b])
  have r2: "searchTasks (Some []) as_alice
              = (Inr (failure ''Query pencarian tidak boleh kosong''), as_alice)
            \<and> search (taskRepository as_alice) [] = findAll (taskRepository as_alice)"
    by (rule searchTasks_blank_query [OF a e])
  have r3: "searchTasks None as_alice
              = (Inr (failure ''Query pencarian tidak boleh kosong''), as_alice)
            \<and> search (taskRepository as_alice) [] = findAll (taskRepository as_alice)"
    by (rule searchTasks_blank_query [OF a n])
  have r1': "searchTasks
         (Some [CHR 0x20, CHR 0xC2, CHR 0xA0, CHR 0xE2, CHR 0x80, CHR 0xA8,
                CHR 0xEF, CHR 0xBB, CHR 0xBF, CHR 0x09]) as_alice
       = (Inr (failure ''Query pencarian tidak boleh kosong''), as_alice)"
    using r1 by (simp only: example_query_bytes)
  from a r1' r2 r3 show ?thesis by blast
qed

text \<open>
  C1. The claim is that every task operation answers \<open>User harus login terlebih dahulu\<close>
  when no user is set. \<open>toggleTaskStatus\<close> has no such check: without a user it answers
  that the task was not found when the id is absent, and when the task exists it answers
  with the text of the engine's TypeError for \<open>this.currentUser.id\<close>, whatever that
  text is.
\<close>

theorem toggleTaskStatus_without_login:
  "currentUser logged_out = None
   \<and> toggleTaskStatus E tmsg ''t9'' logged_out
       = (Inr (failure ''Task tidak ditemukan''), logged_out)
   \<and> toggleTaskStatus E tmsg ''t1'' logged_out = (Inr (failure tmsg), logged_out)"
  by (simp add: toggleTaskStatus_def toggleTaskStatus_body_def try_catch_def logged_out_def
      one_repo_def findById_def null_deref_def)

text \<open>The other nine operations do have the check.\<close>

lemma login_required_elsewhere:
  assumes "currentUser c = None"
  shows "createTask E d c = (Inr (failure login_required), c)"
    and "getTasks fs c = (Inr (failure login_required), c)"
    and "getTask taskId c = (Inr (failure login_required), c)"
    and "updateTask E taskId u c = (Inr (failure login_required), c)"
    and "deleteTask taskId c = (Inr (failure login_required), c)"
    and "searchTasks q c = (Inr (failure login_required), c)"
    and "getTaskStats c = (Inr (failure login_required), c)"
    and "getOverdueTasks c = (Inr (failure login_required), c)"
    and "getTasksDueSoon days c = (Inr (failure login_required), c)"
  using assms
  by (simp_all add: try_catch_def createTask_def createTask_body_def getTasks_def
      getTasks_body_def getTask_def getTask_body_def updateTask_def updateTask_body_def
      deleteTask_def deleteTask_body_def searchTasks_def searchTasks_body_def
      getTaskStats_def getTaskStats_body_def getOverdueTasks_def getOverdueTasks_body_def
      getTasksDueSoon_def getTasksDueSoon_body_def)

lemma if_filter: "(if b then filter P xs else xs) = filter (\<lambda>t. \<not> b \<or> P t) xs"
  by simp

lemma filter_repo_owner:
  assumes "truthy (f_ownerId f)"
  shows "\<forall>t \<in> set (filter_repo r f). Some (ownerId t) = f_ownerId f"
proof -
  let ?own = "filter (\<lambda>t. Some (ownerId t) = f_ownerId f) (findAll r)"
  have "set (filter_repo r f) \<subseteq> set ?own"
    using assms
    by (simp add: filter_repo_def Let_def if_filter split: option.splits split del: if_split)
      blast
  then show ?thesis by auto
qed

lemma getTasks_bob:
  "getTasks (no_filters\<lparr>f_ownerId := Some ''u1''\<rparr>) as_bob
     = (Inr (succeed (Some (Tasks [bobs_task])) None (Some 1)), as_bob)"
  by (simp add: getTasks_def getTasks_body_def try_catch_def as_bob_def two_repo_def
      filter_repo_def findAll_def no_filters_def truthy_def bob_def or_else_def
      late_task_def bobs_task_def mk_task_def sort_tasks_def array_sort_def Let_def)

lemma filter_repo_empty_owner:
  "filter_repo r (fs\<lparr>f_ownerId := Some []\<rparr>) = filter_repo r (fs\<lparr>f_ownerId := None\<rparr>)"
  by (simp add: filter_repo_def truthy_def Let_def split del: if_split cong: if_cong)

text \<open>
  C5, as stated, fails: the claim is for every logged-in user, and the repository's
  \<open>filter\<close> applies \<open>ownerId\<close> only when it is truthy. A logged-in user whose id is the
  empty string gets the tasks of every owner from \<open>getTasks\<close>.
\<close>

theorem getTasks_empty_id_all_owners:
  "setCurrentUser [] (as_nameless\<lparr>currentUser := None\<rparr>) = (Inr (), as_nameless)
   \<and> getTasks no_filters as_nameless
       = (Inr (succeed (Some (Tasks [bobs_task, late_task])) None (Some 2)), as_nameless)
   \<and> ownerId bobs_task \<noteq> id_user nameless
   \<and> ownerId late_task \<noteq> id_user nameless"
  by (simp add: getTasks_def getTasks_body_def try_catch_def as_nameless_def two_repo_def
      filter_repo_def findAll_def no_filters_def truthy_def nameless_def or_else_def
      late_task_def bobs_task_def mk_task_def sort_tasks_def array_sort_def Let_def
      comparator_def sort_value_def setCurrentUser_def user_findById_def succeed_def)

text \<open>
  C5, amended. For a logged-in user whose id is a non-empty string and every \<open>filters\<close>
  argument, also one that names another \<open>ownerId\<close>, \<open>getTasks\<close> succeeds and every task
  of its \<open>data\<close> has the current user as owner: the controller's \<open>ownerId\<close> replaces the
  caller's, and a task the user is only assigned is not in the list. For a logged-in
  user whose id is the empty string \<open>getTasks\<close> succeeds with the tasks that the other
  filters leave, of whatever owner.
\<close>

theorem getTasks_owner_only:
  assumes "currentUser c = Some cu"
  shows "(id_user cu \<noteq> [] \<longrightarrow>
           (\<exists>ts. getTasks fs c = (Inr (succeed (Some (Tasks ts)) None (Some (length ts))), c)
              \<and> (\<forall>t \<in> set ts. ownerId t = id_user cu)))
       \<and> (id_user cu = [] \<longrightarrow>
           (\<exists>ts. getTasks fs c = (Inr (succeed (Some (Tasks ts)) None (Some (length ts))), c)
              \<and> ts = sort_tasks (filter_repo (taskRepository c) (fs\<lparr>f_ownerId := None\<rparr>))
                       (or_else (f_sortBy fs) ''createdAt'')
                       (or_else (f_sortOrder fs) ''desc'')))"
proof (rule conjI; rule impI)
  assume ne: "id_user cu \<noteq> []"
  let ?uf = "fs\<lparr>f_ownerId := Some (id_user cu)\<rparr>"
  let ?ts = "sort_tasks (filter_repo (taskRepository c) ?uf)
               (or_else (f_sortBy fs) ''createdAt'') (or_else (f_sortOrder fs) ''desc'')"
  have t: "truthy (f_ownerId ?uf)" using ne by (simp add: truthy_def)
  have o: "\<forall>t \<in> set ?ts. ownerId t = id_user cu"
    using filter_repo_owner [OF t, of "taskRepository c"] by (simp add: set_sort_tasks)
  have g: "getTasks fs c = (Inr (succeed (Some (Tasks ?ts)) None (Some (length ?ts))), c)"
    using assms(1) by (simp add: getTasks_def getTasks_body_def try_catch_def Let_def)
  show "\<exists>ts. getTasks fs c = (Inr (succeed (Some (Tasks ts)) None (Some (length ts))), c)
              \<and> (\<forall>t \<in> set ts. ownerId t = id_user cu)"
    using g o by blast
next
  assume e: "id_user cu = []"
  let ?ts = "sort_tasks (filter_repo (taskRepository c) (fs\<lparr>f_ownerId := None\<rparr>))
               (or_else (f_sortBy fs) ''createdAt'') (or_else (f_sortOrder fs) ''desc'')"
  have g: "getTasks fs c = (Inr (succeed (Some (Tasks ?ts)) None (Some (length ?ts))), c)"
    using assms(1) e
    by (simp add: getTasks_def getTasks_body_def try_catch_def Let_def filter_repo_empty_owner)
  show "\<exists>ts. getTasks fs c = (Inr (succeed (Some (Tasks ts)) None (Some (length ts))), c)
              \<and> ts = sort_tasks (filter_repo (taskRepository c) (fs\<lparr>f_ownerId := None\<rparr>))
                       (or_else (f_sortBy fs) ''createdAt'')
                       (or_else (f_sortOrder fs) ''desc'')"
    using g by blast
qed

theorem getTasks_owner_only_witness:
  "currentUser as_bob = Some bob \<and> id_user bob \<noteq> []
   \<and> assigneeId late_task = id_user bob
   \<and> getTasks (no_filters\<lparr>f_ownerId := Some ''u1''\<rparr>) as_bob
       = (Inr (succeed (Some (Tasks [bobs_task])) None (Some 1)), as_bob)
   \<and> ownerId bobs_task = id_user bob
   \<and> currentUser as_nameless = Some nameless \<and> id_user nameless = []
   \<and> fst (getTasks no_filters as_nameless)
       = Inr (succeed
               (Some (Tasks (sort_tasks (filter_repo two_repo no_filters)
                               ''createdAt'' ''desc'')))
               None (Some 2))"
proof -
  have a: "currentUser as_bob = Some bob" by (simp add: as_bob_def)
  have b: "id_user bob \<noteq> []" by (simp add: bob_def)
  have d: "assigneeId late_task = id_user bob" by (simp add: late_task_def mk_task_def bob_def)
  obtain ts where
    g: "getTasks (no_filters\<lparr>f_ownerId := Some ''u1''\<rparr>) as_bob
          = (Inr (succeed (Some (Tasks ts)) None (Some (length ts))), as_bob)"
    and o: "\<forall>t \<in> set ts. ownerId t = id_user bob"
    using getTasks_owner_only [OF a] b by blast
  have "ts = [bobs_task]" using g by (simp add: getTasks_bob succeed_def)
  then have e: "ownerId bobs_task = id_user bob" using o by simp
  have a2: "currentUser as_nameless = Some nameless" by (simp add: as_nameless_def)
  have b2: "id_user nameless = []" by (simp add: nameless_def)
  let ?all = "sort_tasks (filter_repo (taskRepository as_nameless)
                           (no_filters\<lparr>f_ownerId := None\<rparr>))
                (or_else (f_sortBy no_filters) ''createdAt'')
                (or_else (f_sortOrder no_filters) ''desc'')"
  have g2: "getTasks no_filters as_nameless
              = (Inr (succeed (Some (Tasks ?all)) None (Some (length ?all))), as_nameless)"
    using getTasks_owner_only [OF a2, of no_filters] b2 by blast
  have n: "?all = sort_tasks (filter_repo two_repo no_filters) ''createdAt'' ''desc''"
    by (simp add: as_nameless_def no_filters_def or_else_def)
  have l: "length (sort_tasks (filter_repo two_repo no_filters) ''createdAt'' ''desc'') = 2"
    by (simp add: filter_repo_def findAll_def no_filters_def truthy_def two_repo_def
        sort_tasks_def array_sort_def Let_def comparator_def sort_value_def
        late_task_def bobs_task_def mk_task_def)
  have f2: "fst (getTasks no_filters as_nameless)
       = Inr (succeed
               (Some (Tasks (sort_tasks (filter_repo two_repo no_filters)
                               ''createdAt'' ''desc'')))
               None (Some 2))"
    unfolding g2 n by (simp add: l)
  from a b d getTasks_bob e a2 b2 f2 show ?thesis by (intro conjI)
qed

text \<open>
  C7. The claim is that an owner's \<open>updateTask\<close> whose \<open>assigneeId\<close> is not the id of a
  user answers \<open>User yang di-assign tidak ditemukan\<close> and leaves the assignee as it was,
  also for the empty string. The controller looks the assignee up only when
  \<open>updates.assigneeId\<close> is truthy, and the repository assigns whenever it is not
  \<open>undefined\<close>: with the empty string, which is no user's id, the call succeeds and the
  task's assignee is the empty string.
\<close>

theorem updateTask_empty_assignee:
  "user_findById (userRepository as_alice) [] = None
   \<and> fst (updateTask spec_entity ''t1'' (no_updates\<lparr>u_assigneeId := Some []\<rparr>) as_alice)
       = Inr (succeed (Some (Task (late_task\<lparr>assigneeId := []\<rparr>)))
                (Some ''Task berhasil diupdate'') None)
   \<and> map_option assigneeId
         (findById (taskRepository
            (snd (updateTask spec_entity ''t1'' (no_updates\<lparr>u_assigneeId := Some []\<rparr>)
                    as_alice)))
            ''t1'') = Some []"
  by (simp add: updateTask_def updateTask_body_def try_catch_def as_alice_def two_repo_def
      findById_def user_findById_def alice_def late_task_def mk_task_def truthy_def
      update_def apply_updates_def mutate_def no_updates_def spec_entity_def
      saveTasksToStorage_def task_or_null_def)

text \<open>For an assignee that is a non-empty string and no user's id the check is made.\<close>

lemma updateTask_unknown_assignee:
  assumes "currentUser c = Some cu"
    and "findById (taskRepository c) taskId = Some t"
    and "ownerId t = id_user cu"
    and "u_assigneeId u = Some a" and "a \<noteq> []"
    and "user_findById (userRepository c) a = None"
  shows "updateTask E taskId u c = (Inr (failure ''User yang di-assign tidak ditemukan''), c)"
  using assms by (simp add: updateTask_def updateTask_body_def try_catch_def truthy_def)

text \<open>
  With the empty string the controller goes on to the repository's \<open>update\<close>, whatever
  the entity layer is, and \<open>update\<close> has \<open>assignTo\<close> among its mutations.
\<close>

lemma assignTo_is_called:
  assumes "u_assigneeId u = Some a"
  shows "assignTo E a \<in> set (mutations E u)"
  using assms by (simp add: mutations_def present_def)

lemma updateTask_falsy_assignee:
  assumes "currentUser c = Some cu"
    and "findById (taskRepository c) taskId = Some t"
    and "ownerId t = id_user cu"
    and "u_assigneeId u = Some []"
  shows "updateTask E taskId u c =
           try_catch
             (case update E taskId u (taskRepository c) of
                (Inl e, r') \<Rightarrow> (Inl e, c\<lparr>taskRepository := r'\<rparr>)
              | (Inr updatedTask, r') \<Rightarrow>
                  (Inr (succeed (Some (task_or_null updatedTask))
                          (Some ''Task berhasil diupdate'') None),
                   c\<lparr>taskRepository := r'\<rparr>))"
  using assms by (simp add: updateTask_def updateTask_body_def truthy_def)

subsection \<open>Envelopes\<close>

lemma is_envelope_failure: "is_envelope (Inr (failure m))"
  by (simp add: is_envelope_def failure_def)

lemma is_envelope_succeed: "is_envelope (Inr (succeed d m n))"
  by (simp add: is_envelope_def succeed_def)

lemma is_envelope_query: "is_envelope (Inr ((succeed d m n)\<lparr>query := q\<rparr>))"
  by (simp add: is_envelope_def succeed_def)

lemmas env_simps = is_envelope_failure is_envelope_succeed is_envelope_query try_catch_def

lemma createTask_envelope: "is_envelope (fst (createTask E d c))"
  by (simp add: createTask_def createTask_body_def env_simps Let_def
      split: option.splits sum.splits prod.splits)

lemma getTasks_envelope: "is_envelope (fst (getTasks fs c))"
  by (simp add: getTasks_def getTasks_body_def env_simps Let_def split: option.splits)

lemma getTask_envelope: "is_envelope (fst (getTask taskId c))"
  by (simp add: getTask_def getTask_body_def env_simps split: option.splits)

lemma updateTask_envelope: "is_envelope (fst (updateTask E taskId u c))"
  by (simp add: updateTask_def updateTask_body_def env_simps
      split: option.splits sum.splits prod.splits)

lemma deleteTask_envelope: "is_envelope (fst (deleteTask taskId c))"
  by (simp add: deleteTask_def deleteTask_body_def env_simps
      split: option.splits prod.splits)

lemma toggleTaskStatus_envelope: "is_envelope (fst (toggleTaskStatus E tmsg taskId c))"
  by (simp add: toggleTaskStatus_def toggleTaskStatus_body_def env_simps Let_def
      split: option.splits sum.splits prod.splits)

lemma searchTasks_envelope: "is_envelope (fst (searchTasks q c))"
  by (simp add: searchTasks_def searchTasks_body_def env_simps Let_def split: option.splits)

lemma getTaskStats_envelope: "is_envelope (fst (getTaskStats c))"
  by (simp add: getTaskStats_def getTaskStats_body_def env_simps split: option.splits)

lemma getOverdueTasks_envelope: "is_envelope (fst (getOverdueTasks c))"
  by (simp add: getOverdueTasks_def getOverdueTasks_body_def env_simps Let_def
      split: option.splits)

lemma getTasksDueSoon_envelope: "is_envelope (fst (getTasksDueSoon days c))"
  by (simp add: getTasksDueSoon_def getTasksDueSoon_body_def env_simps Let_def
      split: option.splits)

lemma try_catch_raised: "try_catch (Inl e, c) = (Inr (failure (message_of e)), c)"
  by (simp add: try_catch_def)

lemma createTask_caught:
  "\<forall>e c'. createTask_body E d c = (Inl e, c')
     \<longrightarrow> createTask E d c = (Inr (failure (message_of e)), c')"
  by (simp add: createTask_def try_catch_raised)

lemma updateTask_caught:
  "\<forall>e c'. updateTask_body E taskId u c = (Inl e, c')
     \<longrightarrow> updateTask E taskId u c = (Inr (failure (message_of e)), c')"
  by (simp add: updateTask_def try_catch_raised)

lemma toggleTaskStatus_caught:
  "\<forall>e c'. toggleTaskStatus_body E tmsg taskId c = (Inl e, c')
     \<longrightarrow> toggleTaskStatus E tmsg taskId c = (Inr (failure (message_of e)), c')"
  by (simp add: toggleTaskStatus_def try_catch_raised)

text \<open>
  The bodies raise where the repository does: the error of \<open>create\<close> and of \<open>update\<close>
  leaves the body as it came.
\<close>

lemma createTask_body_raises:
  assumes "currentUser c = Some cu" and "\<not> blank (d_title d)"
    and "or_else (d_assigneeId d) (id_user cu) = id_user cu
         \<or> user_findById (userRepository c) (or_else (d_assigneeId d) (id_user cu)) \<noteq> None"
    and "create E (d\<lparr>d_ownerId := Some (id_user cu),
                     d_assigneeId := Some (or_else (d_assigneeId d) (id_user cu))\<rparr>)
           (taskRepository c) = (Inl e, r')"
  shows "createTask_body E d c = (Inl e, c\<lparr>taskRepository := r'\<rparr>)"
  using assms by (auto simp: createTask_body_def Let_def)

lemma updateTask_body_raises:
  assumes "currentUser c = Some cu" and "findById (taskRepository c) taskId = Some t"
    and "ownerId t = id_user cu"
    and "\<not> truthy (u_assigneeId u)
         \<or> user_findById (userRepository c) (the (u_assigneeId u)) \<noteq> None"
    and "update E taskId u (taskRepository c) = (Inl e, r')"
  shows "updateTask_body E taskId u c = (Inl e, c\<lparr>taskRepository := r'\<rparr>)"
  using assms by (auto simp: updateTask_body_def)

lemma setCurrentUser_absent:
  "user_findById (userRepository c) userId = None
     \<longrightarrow> setCurrentUser userId c
           = (Inl (Error ''User tidak ditemukan''), c\<lparr>currentUser := None\<rparr>)"
  by (simp add: setCurrentUser_def Let_def)

lemma setCurrentUser_present:
  "\<forall>usr. user_findById (userRepository c) userId = Some usr
     \<longrightarrow> setCurrentUser userId c = (Inr (), c\<lparr>currentUser := Some usr\<rparr>)"
  by (simp add: setCurrentUser_def Let_def)

text \<open>
  An error of the repository, and below it of the entity layer, reaches the caller of the
  operation as the failure envelope with its message.
\<close>

lemma createTask_repository_error:
  "\<forall>cu e r'. currentUser c = Some cu \<and> \<not> blank (d_title d)
      \<and> (or_else (d_assigneeId d) (id_user cu) = id_user cu
           \<or> user_findById (userRepository c) (or_else (d_assigneeId d) (id_user cu)) \<noteq> None)
      \<and> create E (d\<lparr>d_ownerId := Some (id_user cu),
                      d_assigneeId := Some (or_else (d_assigneeId d) (id_user cu))\<rparr>)
            (taskRepository c) = (Inl e, r')
     \<longrightarrow> createTask E d c = (Inr (failure (message_of e)), c\<lparr>taskRepository := r'\<rparr>)"
  by (auto simp: createTask_def createTask_body_raises try_catch_raised)

lemma updateTask_repository_error:
  "\<forall>cu t e r'. currentUser c = Some cu \<and> findById (taskRepository c) taskId = Some t
      \<and> ownerId t = id_user cu
      \<and> (\<not> truthy (u_assigneeId u)
           \<or> user_findById (userRepository c) (the (u_assigneeId u)) \<noteq> None)
      \<and> update E taskId u (taskRepository c) = (Inl e, r')
     \<longrightarrow> updateTask E taskId u c = (Inr (failure (message_of e)), c\<lparr>taskRepository := r'\<rparr>)"
  by (auto simp: updateTask_def updateTask_body_raises try_catch_raised)

lemma toggleTaskStatus_body_raises:
  assumes "currentUser c = Some cu" and "findById (taskRepository c) taskId = Some t"
    and "ownerId t = id_user cu \<or> assigneeId t = id_user cu"
    and "update E taskId
           (no_updates\<lparr>u_status := Some (if status t = ''completed''
                                           then ''pending'' else ''completed'')\<rparr>)
           (taskRepository c) = (Inl e, r')"
  shows "toggleTaskStatus_body E tmsg taskId c = (Inl e, c\<lparr>taskRepository := r'\<rparr>)"
  using assms by (auto simp: toggleTaskStatus_body_def Let_def)

lemma toggleTaskStatus_repository_error:
  "\<forall>cu t e r'. currentUser c = Some cu \<and> findById (taskRepository c) taskId = Some t
      \<and> (ownerId t = id_user cu \<or> assigneeId t = id_user cu)
      \<and> update E taskId
           (no_updates\<lparr>u_status := Some (if status t = ''completed''
                                           then ''pending'' else ''completed'')\<rparr>)
           (taskRepository c) = (Inl e, r')
     \<longrightarrow> toggleTaskStatus E tmsg taskId c
           = (Inr (failure (message_of e)), c\<lparr>taskRepository := r'\<rparr>)"
  by (auto simp: toggleTaskStatus_def toggleTaskStatus_body_raises try_catch_raised)

lemma createTask_entity_error:
  "\<forall>cu e. currentUser c = Some cu \<and> \<not> blank (d_title d)
      \<and> (or_else (d_assigneeId d) (id_user cu) = id_user cu
           \<or> user_findById (userRepository c) (or_else (d_assigneeId d) (id_user cu)) \<noteq> None)
      \<and> construct E (clock (taskRepository c)) (d_title d) (or_else (d_description d) [])
            (Some (id_user cu))
            (d\<lparr>d_ownerId := Some (id_user cu),
               d_assigneeId := Some (or_else (d_assigneeId d) (id_user cu))\<rparr>) = Inl e
     \<longrightarrow> createTask E d c
           = (Inr (failure (message_of e)),
              c\<lparr>taskRepository := (taskRepository c)\<lparr>clock := Suc (clock (taskRepository c))\<rparr>\<rparr>)"
proof (intro allI impI)
  fix cu :: user and e
  let ?d = "d\<lparr>d_ownerId := Some (id_user cu),
             d_assigneeId := Some (or_else (d_assigneeId d) (id_user cu))\<rparr>"
  assume h: "currentUser c = Some cu \<and> \<not> blank (d_title d)
      \<and> (or_else (d_assigneeId d) (id_user cu) = id_user cu
           \<or> user_findById (userRepository c) (or_else (d_assigneeId d) (id_user cu)) \<noteq> None)
      \<and> construct E (clock (taskRepository c)) (d_title d) (or_else (d_description d) [])
            (Some (id_user cu)) ?d = Inl e"
  then have "create E ?d (taskRepository c)
               = (Inl e, (taskRepository c)\<lparr>clock := Suc (clock (taskRepository c))\<rparr>)"
    by (intro create_raises) simp
  then show "createTask E d c
           = (Inr (failure (message_of e)),
              c\<lparr>taskRepository := (taskRepository c)\<lparr>clock := Suc (clock (taskRepository c))\<rparr>\<rparr>)"
    using h createTask_repository_error [of c d E] by blast
qed

lemma updateTask_entity_error:
  "\<forall>cu t pre m post t' e. currentUser c = Some cu
      \<and> findById (taskRepository c) taskId = Some t \<and> ownerId t = id_user cu
      \<and> (\<not> truthy (u_assigneeId u)
           \<or> user_findById (userRepository c) (the (u_assigneeId u)) \<noteq> None)
      \<and> mutations E u = pre @ m # post \<and> run_mutations pre t = (t', None) \<and> m t' = Inl e
     \<longrightarrow> updateTask E taskId u c
           = (Inr (failure (message_of e)),
              c\<lparr>taskRepository :=
                   (taskRepository c)\<lparr>tasks := map_set taskId t' (tasks (taskRepository c))\<rparr>\<rparr>)"
proof (intro allI impI)
  fix cu t pre m post t' e
  assume h: "currentUser c = Some cu
      \<and> findById (taskRepository c) taskId = Some t \<and> ownerId t = id_user cu
      \<and> (\<not> truthy (u_assigneeId u)
           \<or> user_findById (userRepository c) (the (u_assigneeId u)) \<noteq> None)
      \<and> mutations E u = pre @ m # post \<and> run_mutations pre t = (t', None) \<and> m t' = Inl e"
  then have "update E taskId u (taskRepository c)
               = (Inl e, (taskRepository c)\<lparr>tasks := map_set taskId t' (tasks (taskRepository c))\<rparr>)"
    by (intro update_raises [where t = t and pre = pre and m = m and post = post]) simp_all
  then show "updateTask E taskId u c
           = (Inr (failure (message_of e)),
              c\<lparr>taskRepository :=
                   (taskRepository c)\<lparr>tasks := map_set taskId t' (tasks (taskRepository c))\<rparr>\<rparr>)"
    using h updateTask_repository_error [of c taskId u E] by blast
qed

lemma toggle_mutations:
  "mutations E (no_updates\<lparr>u_status := Some s\<rparr>) = [] @ updateStatus E s # []"
  by (simp add: mutations_def present_def no_updates_def)

lemma toggleTaskStatus_entity_error:
  "\<forall>cu t e. currentUser c = Some cu \<and> findById (taskRepository c) taskId = Some t
      \<and> (ownerId t = id_user cu \<or> assigneeId t = id_user cu)
      \<and> updateStatus E (if status t = ''completed'' then ''pending'' else ''completed'') t
          = Inl e
     \<longrightarrow> toggleTaskStatus E tmsg taskId c
           = (Inr (failure (message_of e)),
              c\<lparr>taskRepository :=
                   (taskRepository c)\<lparr>tasks := map_set taskId t (tasks (taskRepository c))\<rparr>\<rparr>)"
proof (intro allI impI)
  fix cu :: user and t :: task and e
  let ?s = "if status t = ''completed'' then ''pending'' else ''completed''"
  assume h: "currentUser c = Some cu \<and> findById (taskRepository c) taskId = Some t
      \<and> (ownerId t = id_user cu \<or> assigneeId t = id_user cu)
      \<and> updateStatus E ?s t = Inl e"
  have "update E taskId (no_updates\<lparr>u_status := Some ?s\<rparr>) (taskRepository c)
               = (Inl e, (taskRepository c)\<lparr>tasks := map_set taskId t (tasks (taskRepository c))\<rparr>)"
  proof (rule update_raises [where t = t and pre = "[]" and m = "updateStatus E ?s" and post = "[]"])
    show "findById (taskRepository c) taskId = Some t" using h by simp
    show "mutations E (no_updates\<lparr>u_status := Some ?s\<rparr>) = [] @ updateStatus E ?s # []"
      by (rule toggle_mutations)
    show "run_mutations [] t = (t, None)" by simp
    show "updateStatus E ?s t = Inl e" using h by simp
  qed
  then show "toggleTaskStatus E tmsg taskId c
           = (Inr (failure (message_of e)),
              c\<lparr>taskRepository :=
                   (taskRepository c)\<lparr>tasks := map_set taskId t (tasks (taskRepository c))\<rparr>\<rparr>)"
    using h toggleTaskStatus_repository_error [of c taskId E tmsg] by blast
qed


text \<open>
  C3, as stated, fails: \<open>setCurrentUser\<close> returns no envelope and throws
  \<open>User tidak ditemukan\<close> to its caller when the user does not exist.
\<close>

theorem setCurrentUser_raises:
  "fst (setCurrentUser ''u9'' logged_out) = Inl (Error ''User tidak ditemukan'')"
  by (simp add: setCurrentUser_def logged_out_def user_findById_def Let_def)

text \<open>
  C3, amended. Each of the ten task operations returns an envelope and never raises:
  for every entity layer, controller state and argument the result is a value, a
  success without \<open>error\<close> or exactly \<open>{success: false, error: m}\<close>. An error that the
  repository raises in \<open>create\<close> or \<open>update\<close>, and so an error that the constructor or a
  mutation of the entity layer raises there, comes back from \<open>createTask\<close>,
  \<open>updateTask\<close> and \<open>toggleTaskStatus\<close> as \<open>{success: false, error: error.message}\<close>,
  with the repository as the failed call left it; so does every other error raised in
  the body of these operations. \<open>setCurrentUser\<close> is outside this: it sets the user and
  returns nothing when the user exists, and raises \<open>User tidak ditemukan\<close> when not.
\<close>

theorem task_operations_return_envelopes:
  "is_envelope (fst (createTask E d c))
   \<and> is_envelope (fst (getTasks fs c))
   \<and> is_envelope (fst (getTask taskId c))
   \<and> is_envelope (fst (updateTask E taskId u c))
   \<and> is_envelope (fst (deleteTask taskId c))
   \<and> is_envelope (fst (toggleTaskStatus E tmsg taskId c))
   \<and> is_envelope (fst (searchTasks q c))
   \<and> is_envelope (fst (getTaskStats c))
   \<and> is_envelope (fst (getOverdueTasks c))
   \<and> is_envelope (fst (getTasksDueSoon days c))
   \<and> (\<forall>cu e r'. currentUser c = Some cu \<and> \<not> blank (d_title d)
         \<and> (or_else (d_assigneeId d) (id_user cu) = id_user cu
              \<or> user_findById (userRepository c) (or_else (d_assigneeId d) (id_user cu))
                  \<noteq> None)
         \<and> create E (d\<lparr>d_ownerId := Some (id_user cu),
                         d_assigneeId := Some (or_else (d_assigneeId d) (id_user cu))\<rparr>)
               (taskRepository c) = (Inl e, r')
        \<longrightarrow> createTask E d c = (Inr (failure (message_of e)), c\<lparr>taskRepository := r'\<rparr>))
   \<and> (\<forall>cu t e r'. currentUser c = Some cu \<and> findById (taskRepository c) taskId = Some t
         \<and> ownerId t = id_user cu
         \<and> (\<not> truthy (u_assigneeId u)
              \<or> user_findById (userRepository c) (the (u_assigneeId u)) \<noteq> None)
         \<and> update E taskId u (taskRepository c) = (Inl e, r')
        \<longrightarrow> updateTask E taskId u c
              = (Inr (failure (message_of e)), c\<lparr>taskRepository := r'\<rparr>))
   \<and> (\<forall>cu t e r'. currentUser c = Some cu \<and> findById (taskRepository c) taskId = Some t
         \<and> (ownerId t = id_user cu \<or> assigneeId t = id_user cu)
         \<and> update E taskId
              (no_updates\<lparr>u_status := Some (if status t = ''completed''
                                              then ''pending'' else ''completed'')\<rparr>)
              (taskRepository c) = (Inl e, r')
        \<longrightarrow> toggleTaskStatus E tmsg taskId c
              = (Inr (failure (message_of e)), c\<lparr>taskRepository := r'\<rparr>))
   \<and> (\<forall>cu e. currentUser c = Some cu \<and> \<not> blank (d_title d)
         \<and> (or_else (d_assigneeId d) (id_user cu) = id_user cu
              \<or> user_findById (userRepository c) (or_else (d_assigneeId d) (id_user cu))
                  \<noteq> None)
         \<and> construct E (clock (taskRepository c)) (d_title d) (or_else (d_description d) [])
               (Some (id_user cu))
               (d\<lparr>d_ownerId := Some (id_user cu),
                  d_assigneeId := Some (or_else (d_assigneeId d) (id_user cu))\<rparr>) = Inl e
        \<longrightarrow> createTask E d c
              = (Inr (failure (message_of e)),
                 c\<lparr>taskRepository :=
                      (taskRepository c)\<lparr>clock := Suc (clock (taskRepository c))\<rparr>\<rparr>))
   \<and> (\<forall>cu t pre m post t' e. currentUser c = Some cu
         \<and> findById (taskRepository c) taskId = Some t \<and> ownerId t = id_user cu
         \<and> (\<not> truthy (u_assigneeId u)
              \<or> user_findById (userRepository c) (the (u_assigneeId u)) \<noteq> None)
         \<and> mutations E u = pre @ m # post \<and> run_mutations pre t = (t', None)
         \<and> m t' = Inl e
        \<longrightarrow> updateTask E taskId u c
              = (Inr (failure (message_of e)),
                 c\<lparr>taskRepository :=
                      (taskRepository c)\<lparr>tasks := map_set taskId t'
                                                      (tasks (taskRepository c))\<rparr>\<rparr>))
   \<and> (\<forall>cu t e. currentUser c = Some cu \<and> findById (taskRepository c) taskId = Some t
         \<and> (ownerId t = id_user cu \<or> assigneeId t = id_user cu)
         \<and> updateStatus E (if status t = ''completed'' then ''pending'' else ''completed'') t
             = Inl e
        \<longrightarrow> toggleTaskStatus E tmsg taskId c
              = (Inr (failure (message_of e)),
                 c\<lparr>taskRepository :=
                      (taskRepository c)\<lparr>tasks := map_set taskId t
                                                      (tasks (taskRepository c))\<rparr>\<rparr>))
   \<and> (\<forall>e c'. createTask_body E d c = (Inl e, c')
         \<longrightarrow> createTask E d c = (Inr (failure (message_of e)), c'))
   \<and> (\<forall>e c'. updateTask_body E taskId u c = (Inl e, c')
         \<longrightarrow> updateTask E taskId u c = (Inr (failure (message_of e)), c'))
   \<and> (\<forall>e c'. toggleTaskStatus_body E tmsg taskId c = (Inl e, c')
         \<longrightarrow> toggleTaskStatus E tmsg taskId c = (Inr (failure (message_of e)), c'))
   \<and> (user_findById (userRepository c) userId = None
         \<longrightarrow> setCurrentUser userId c
               = (Inl (Error ''User tidak ditemukan''), c\<lparr>currentUser := None\<rparr>))
   \<and> (\<forall>usr. user_findById (userRepository c) userId = Some usr
         \<longrightarrow> setCurrentUser userId c = (Inr (), c\<lparr>currentUser := Some usr\<rparr>))"
  by (intro conjI) (rule createTask_envelope getTasks_envelope getTask_envelope
      updateTask_envelope deleteTask_envelope toggleTaskStatus_envelope searchTasks_envelope
      getTaskStats_envelope getOverdueTasks_envelope getTasksDueSoon_envelope
      createTask_repository_error updateTask_repository_error
      toggleTaskStatus_repository_error createTask_entity_error updateTask_entity_error
      toggleTaskStatus_entity_error
      createTask_caught updateTask_caught toggleTaskStatus_caught
      setCurrentUser_absent setCurrentUser_present)+

lemma alice_owns_late_task:
  "currentUser as_alice = Some alice \<and> findById (taskRepository as_alice) ''t1'' = Some late_task
   \<and> ownerId late_task = id_user alice"
  by (simp add: as_alice_def two_repo_def findById_def late_task_def mk_task_def alice_def)

lemma huge_data_raises:
  "construct spec_entity (clock (taskRepository as_alice)) (d_title huge_data)
     (or_else (d_description huge_data) []) (Some (id_user alice))
     (huge_data\<lparr>d_ownerId := Some (id_user alice),
                d_assigneeId := Some (or_else (d_assigneeId huge_data) (id_user alice))\<rparr>)
     = Inl (Error ''Prioritas tidak valid: huge'')"
  by (simp add: spec_entity_def huge_data_def no_data_def checked_def priorities_def
      or_else_def)

lemma huge_data_title: "\<not> blank (d_title huge_data)"
  by (simp add: huge_data_def no_data_def blank_def trim_Buy_tea)

lemma huge_data_assignee: "or_else (d_assigneeId huge_data) (id_user alice) = id_user alice"
  by (simp add: huge_data_def no_data_def or_else_def)

lemma frozen_status:
  "updateStatus frozen_entity
     (if status late_task = ''completed'' then ''pending'' else ''completed'') late_task
     = Inl (Error ''Status terkunci'')"
  by (simp add: frozen_entity_def)

theorem task_operations_return_envelopes_witness:
  "createTask spec_entity huge_data as_alice
     = (Inr (failure ''Prioritas tidak valid: huge''),
        as_alice\<lparr>taskRepository := two_repo\<lparr>clock := 3\<rparr>\<rparr>)
   \<and> updateTask spec_entity ''t1'' three_updates as_alice
     = (Inr (failure ''Prioritas tidak valid: huge''),
        as_alice\<lparr>taskRepository :=
          two_repo\<lparr>tasks := [(''t1'', late_task\<lparr>title := ''Buy tea''\<rparr>), (''t2'', bobs_task)]\<rparr>\<rparr>)
   \<and> toggleTaskStatus frozen_entity ''no user'' ''t1'' as_alice
     = (Inr (failure ''Status terkunci''), as_alice)"
proof -
  note E1 = task_operations_return_envelopes
    [where E = spec_entity and d = huge_data and c = as_alice,
     THEN conjunct2, THEN conjunct2, THEN conjunct2, THEN conjunct2, THEN conjunct2,
     THEN conjunct2, THEN conjunct2, THEN conjunct2, THEN conjunct2, THEN conjunct2,
     THEN conjunct2, THEN conjunct2, THEN conjunct2, THEN conjunct1]
  note E2 = task_operations_return_envelopes
    [where E = spec_entity and taskId = "''t1''" and u = three_updates and c = as_alice,
     THEN conjunct2, THEN conjunct2, THEN conjunct2, THEN conjunct2, THEN conjunct2,
     THEN conjunct2, THEN conjunct2, THEN conjunct2, THEN conjunct2, THEN conjunct2,
     THEN conjunct2, THEN conjunct2, THEN conjunct2, THEN conjunct2, THEN conjunct1]
  note E3 = task_operations_return_envelopes
    [where E = frozen_entity and taskId = "''t1''" and c = as_alice and tmsg = "''no user''",
     THEN conjunct2, THEN conjunct2, THEN conjunct2, THEN conjunct2, THEN conjunct2,
     THEN conjunct2, THEN conjunct2, THEN conjunct2, THEN conjunct2, THEN conjunct2,
     THEN conjunct2, THEN conjunct2, THEN conjunct2, THEN conjunct2, THEN conjunct2,
     THEN conjunct1]
  have tr: "taskRepository as_alice = two_repo" by (simp add: as_alice_def)
  have ua: "\<not> truthy (u_assigneeId three_updates)"
    by (simp add: three_updates_def no_updates_def truthy_def)
  have c1: "createTask spec_entity huge_data as_alice
     = (Inr (failure (message_of (Error ''Prioritas tidak valid: huge''))),
        as_alice\<lparr>taskRepository :=
          (taskRepository as_alice)\<lparr>clock := Suc (clock (taskRepository as_alice))\<rparr>\<rparr>)"
    using E1
      alice_owns_late_task huge_data_raises huge_data_title huge_data_assignee
    by blast
  have c2: "updateTask spec_entity ''t1'' three_updates as_alice
     = (Inr (failure (message_of (Error ''Prioritas tidak valid: huge''))),
        as_alice\<lparr>taskRepository :=
          (taskRepository as_alice)\<lparr>tasks := map_set ''t1'' (late_task\<lparr>title := ''Buy tea''\<rparr>)
                                                (tasks (taskRepository as_alice))\<rparr>\<rparr>)"
    using E2
      alice_owns_late_task ua three_mutations title_goes_through priority_raises
    by blast
  have c3: "toggleTaskStatus frozen_entity ''no user'' ''t1'' as_alice
     = (Inr (failure (message_of (Error ''Status terkunci''))),
        as_alice\<lparr>taskRepository :=
          (taskRepository as_alice)\<lparr>tasks := map_set ''t1'' late_task
                                                (tasks (taskRepository as_alice))\<rparr>\<rparr>)"
    using E3
      alice_owns_late_task frozen_status
    by blast
  have s1: "createTask spec_entity huge_data as_alice
     = (Inr (failure ''Prioritas tidak valid: huge''),
        as_alice\<lparr>taskRepository := two_repo\<lparr>clock := 3\<rparr>\<rparr>)"
    unfolding c1 by (simp add: tr two_repo_def)
  have s2: "updateTask spec_entity ''t1'' three_updates as_alice
     = (Inr (failure ''Prioritas tidak valid: huge''),
        as_alice\<lparr>taskRepository :=
          two_repo\<lparr>tasks := [(''t1'', late_task\<lparr>title := ''Buy tea''\<rparr>), (''t2'', bobs_task)]\<rparr>\<rparr>)"
    unfolding c2 by (simp add: tr two_repo_def)
  have s3: "toggleTaskStatus frozen_entity ''no user'' ''t1'' as_alice
     = (Inr (failure ''Status terkunci''), as_alice)"
    unfolding c3 by (simp add: as_alice_def two_repo_def)
  from s1 s2 s3 show ?thesis by (intro conjI)
qed

end
